theory Spec2Isabelle
  imports Main "HOL-Library.AList" "HOL-Library.Word"
begin

section \<open>Go library functions used by the clients\<close>

text \<open>
  Go strings are byte sequences, so a Go \<^verbatim>\<open>string\<close> is a \<^typ>\<open>string\<close> here
  (a list of 8-bit characters) and \<^verbatim>\<open>+\<close> on strings is \<open>@\<close>.

  \<^verbatim>\<open>strings.HasPrefix\<close>, \<^verbatim>\<open>strings.Contains\<close> and \<^verbatim>\<open>strings.ReplaceAll\<close> follow the
  documentation of package \<^verbatim>\<open>strings\<close>: \<^verbatim>\<open>ReplaceAll(s, old, new)\<close> replaces the
  non-overlapping instances of \<open>old\<close>, scanning from the left. The clients call it with
  the two placeholder literals only; what Go does for an empty \<open>old\<close> (insertion at
  every rune boundary) is not modelled, and \<open>ReplaceAll s [] new\<close> is \<open>s\<close> here.
\<close>

fun HasPrefix :: "string \<Rightarrow> string \<Rightarrow> bool" where
  "HasPrefix s [] = True"
| "HasPrefix [] (p # ps) = False"
| "HasPrefix (c # cs) (p # ps) = (c = p \<and> HasPrefix cs ps)"

fun Contains :: "string \<Rightarrow> string \<Rightarrow> bool" where
  "Contains [] substr = (substr = [])"
| "Contains (c # cs) substr = (HasPrefix (c # cs) substr \<or> Contains cs substr)"

fun ReplaceAll :: "string \<Rightarrow> string \<Rightarrow> string \<Rightarrow> string" where
  "ReplaceAll [] old new = []"
| "ReplaceAll (c # cs) old new =
     (if old \<noteq> [] \<and> HasPrefix (c # cs) old
      then new @ ReplaceAll (drop (length old - 1) cs) old new
      else c # ReplaceAll cs old new)"

text \<open>
  \<^verbatim>\<open>%d\<close> of \<^verbatim>\<open>fmt\<close>: the decimal digits of an integer, with a minus sign when
  it is negative.
\<close>

fun digits :: "nat \<Rightarrow> string" where
  "digits n =
     (if n < 10 then [char_of (48 + n)]
      else digits (n div 10) @ [char_of (48 + n mod 10)])"

definition fmt_d :: "int \<Rightarrow> string" where
  "fmt_d i = (if i < 0 then CHR ''-'' # digits (nat (- i)) else digits (nat i))"

text \<open>
  \<^verbatim>\<open>time.Duration\<close> counts nanoseconds.
\<close>

definition Second :: int where
  "Second = 1000000000"

definition Minute :: int where
  "Minute = 60 * Second"

subsection \<open>HTTP\<close>

text \<open>
  An \<^verbatim>\<open>http.Client\<close> is its timeout (both constructors make one, so the client's
  \<^verbatim>\<open>HTTPClient\<close> is not \<^verbatim>\<open>nil\<close>). A request is its method, URL, headers and
  body (\<open>None\<close> for the \<^verbatim>\<open>nil\<close> body of a GET). A response is its status code and
  what \<^verbatim>\<open>io.ReadAll\<close> gives on its body: the bytes, or a read error.
\<close>

record http_client =
  Timeout :: int

record http_request =
  Method :: string
  URL :: string
  Header :: "(string \<times> string) list"
  Body :: "string option"

record http_response =
  StatusCode :: int
  ReadAll :: "string + string"

text \<open>
  What the program cannot decide by itself is a parameter of the model:
  \<^item> \<open>url_error\<close>: the error of \<^verbatim>\<open>http.NewRequest\<close> on a URL it cannot parse;
  \<^item> \<open>round_trip\<close>: the provider and the network. \<^verbatim>\<open>HTTPClient.Do\<close> on a request
    gives a transport error or a response, which may depend on the client's timeout and
    on the requests sent before (a provider's task moves on between two polls);
  \<^item> the \<^verbatim>\<open>json.Marshal\<close> and \<^verbatim>\<open>json.Unmarshal\<close> of package \<^verbatim>\<open>encoding/json\<close>
    at each Go type they are called at (\<open>Inl\<close> carries the error's text).
  The record \<open>net\<close> holds the first two; each package extends it with the JSON
  functions it calls.
\<close>

record net =
  url_error :: "string \<Rightarrow> string option"
  round_trip :: "http_client \<Rightarrow> http_request list \<Rightarrow> http_request \<Rightarrow> string + http_response"

text \<open>
  The state an operation runs in: the receiver object (\<^verbatim>\<open>*c\<close>, which a method with a
  pointer receiver could assign to) and the requests sent over the network so far, oldest
  first. Console output (\<^verbatim>\<open>fmt.Printf\<close>) is not part of the state.
\<close>

record 'c world =
  self :: 'c
  wire :: "http_request list"

definition NewRequest :: "net \<Rightarrow> string \<Rightarrow> string \<Rightarrow> string option \<Rightarrow> string + http_request" where
  "NewRequest n method url body =
     (case url_error n url of
        Some e \<Rightarrow> Inl e
      | None \<Rightarrow> Inr \<lparr>Method = method, URL = url, Header = [], Body = body\<rparr>)"

definition Header_Set :: "string \<Rightarrow> string \<Rightarrow> http_request \<Rightarrow> http_request" where
  "Header_Set k v req = req\<lparr>Header := AList.update k v (Header req)\<rparr>"

definition Do :: "net \<Rightarrow> http_client \<Rightarrow> http_request \<Rightarrow> 'c world \<Rightarrow> (string + http_response) \<times> 'c world" where
  "Do n hc req w = (round_trip n hc (wire w) req, w\<lparr>wire := wire w @ [req]\<rparr>)"

section \<open>Package video: the Chatfire client\<close>

record ChatfireClient =
  BaseURL :: string
  APIKey :: string
  Model :: string
  Endpoint :: string
  QueryEndpoint :: string
  HTTPClient :: http_client

record ChatfireRequest =
  Model :: string
  Prompt :: string
  ImageURL :: string
  Duration :: int
  Size :: string

record ChatfireResponse =
  TaskID :: string
  Status :: string
  Error :: string

record ChatfireTaskResponse =
  TaskID :: string
  Status :: string
  VideoURL :: string
  Error :: string

text \<open>
  \<^verbatim>\<open>VideoOptions\<close>, \<^verbatim>\<open>VideoOption\<close> and \<^verbatim>\<open>VideoResult\<close> are declared in another file of
  package \<^verbatim>\<open>video\<close>. The records below have the fields this client reads or writes;
  a field the client never names keeps its zero value and plays no part. A
  \<^verbatim>\<open>VideoOption\<close> is a \<^verbatim>\<open>func(*VideoOptions)\<close>: a function on the options.
\<close>

record VideoOptions =
  Model :: string
  Duration :: int
  AspectRatio :: string

type_synonym VideoOption = "VideoOptions \<Rightarrow> VideoOptions"

record VideoResult =
  TaskID :: string
  Status :: string
  VideoURL :: string
  Duration :: int
  Error :: string
  Completed :: bool

text \<open>
  The errors the client returns, one constructor for each \<^verbatim>\<open>fmt.Errorf\<close> of the file,
  carrying the arguments of its format; \<open>video_error_text\<close> is the message Go builds.
\<close>

datatype video_error =
    MarshalRequest string
  | CreateRequest string
  | SendRequest string
  | ReadResponse string
  | APIError int string
  | ParseResponse string
  | ChatfireError string

fun video_error_text :: "video_error \<Rightarrow> string" where
  "video_error_text (MarshalRequest e) = ''marshal request: '' @ e"
| "video_error_text (CreateRequest e) = ''create request: '' @ e"
| "video_error_text (SendRequest e) = ''send request: '' @ e"
| "video_error_text (ReadResponse e) = ''read response: '' @ e"
| "video_error_text (APIError code body) = ''API error (status '' @ fmt_d code @ ''): '' @ body"
| "video_error_text (ParseResponse e) = ''parse response: '' @ e"
| "video_error_text (ChatfireError e) = ''chatfire error: '' @ e"

record video_env = net +
  marshal_ChatfireRequest :: "ChatfireRequest \<Rightarrow> string + string"
  unmarshal_ChatfireResponse :: "string \<Rightarrow> string + ChatfireResponse"
  unmarshal_ChatfireTaskResponse :: "string \<Rightarrow> string + ChatfireTaskResponse"

definition NewChatfireClient :: "string \<Rightarrow> string \<Rightarrow> string \<Rightarrow> string \<Rightarrow> string \<Rightarrow> ChatfireClient" where
  "NewChatfireClient baseURL apiKey model endpoint queryEndpoint =
     (let endpoint = (if endpoint = [] then ''/video/generations'' else endpoint);
          queryEndpoint = (if queryEndpoint = [] then ''/v1/video/task/{taskId}'' else queryEndpoint)
      in \<lparr>ChatfireClient.BaseURL = baseURL,
          ChatfireClient.APIKey = apiKey,
          ChatfireClient.Model = model,
          ChatfireClient.Endpoint = endpoint,
          ChatfireClient.QueryEndpoint = queryEndpoint,
          ChatfireClient.HTTPClient = \<lparr>Timeout = 300 * Second\<rparr>\<rparr>)"

text \<open>
  The loop \<^verbatim>\<open>for _, opt := range opts { opt(options) }\<close> over the options that start
  at \<^verbatim>\<open>Duration: 5, AspectRatio: "16:9"\<close>.
\<close>

fun apply_opts :: "VideoOption list \<Rightarrow> VideoOptions \<Rightarrow> VideoOptions" where
  "apply_opts [] options = options"
| "apply_opts (opt # opts) options = apply_opts opts (opt options)"

definition default_options :: VideoOptions where
  "default_options =
     \<lparr>VideoOptions.Model = [], VideoOptions.Duration = 5, VideoOptions.AspectRatio = ''16:9''\<rparr>"

definition GenerateVideo ::
  "video_env \<Rightarrow> string \<Rightarrow> string \<Rightarrow> VideoOption list \<Rightarrow> ChatfireClient world
     \<Rightarrow> (video_error + VideoResult) \<times> ChatfireClient world" where
  "GenerateVideo env imageURL prompt opts w =
     (let c = self w;
          options = apply_opts opts default_options;
          model = (if VideoOptions.Model options \<noteq> [] then VideoOptions.Model options
                   else ChatfireClient.Model c);
          reqBody = \<lparr>ChatfireRequest.Model = model,
                     ChatfireRequest.Prompt = prompt,
                     ChatfireRequest.ImageURL = imageURL,
                     ChatfireRequest.Duration = VideoOptions.Duration options,
                     ChatfireRequest.Size = VideoOptions.AspectRatio options\<rparr>
      in case marshal_ChatfireRequest env reqBody of
           Inl err \<Rightarrow> (Inl (MarshalRequest err), w)
         | Inr jsonData \<Rightarrow>
             (let endpoint = ChatfireClient.BaseURL c @ ChatfireClient.Endpoint c
              in case NewRequest (net.truncate env) ''POST'' endpoint (Some jsonData) of
                   Inl err \<Rightarrow> (Inl (CreateRequest err), w)
                 | Inr req0 \<Rightarrow>
                     (let req = Header_Set ''Authorization'' (''Bearer '' @ ChatfireClient.APIKey c)
                                  (Header_Set ''Content-Type'' ''application/json'' req0)
                      in case Do (net.truncate env) (ChatfireClient.HTTPClient c) req w of
                           (Inl err, w') \<Rightarrow> (Inl (SendRequest err), w')
                         | (Inr resp, w') \<Rightarrow>
                             (case ReadAll resp of
                                Inl err \<Rightarrow> (Inl (ReadResponse err), w')
                              | Inr body \<Rightarrow>
                                  if StatusCode resp \<noteq> 200 \<and> StatusCode resp \<noteq> 201
                                  then (Inl (APIError (StatusCode resp) body), w')
                                  else (case unmarshal_ChatfireResponse env body of
                                          Inl err \<Rightarrow> (Inl (ParseResponse err), w')
                                        | Inr result \<Rightarrow>
                                            if ChatfireResponse.Error result \<noteq> []
                                            then (Inl (ChatfireError (ChatfireResponse.Error result)), w')
                                            else (Inr \<lparr>VideoResult.TaskID = ChatfireResponse.TaskID result,
                                                       VideoResult.Status = ChatfireResponse.Status result,
                                                       VideoResult.VideoURL = [],
                                                       VideoResult.Duration = VideoOptions.Duration options,
                                                       VideoResult.Error = [],
                                                       VideoResult.Completed =
                                                         (ChatfireResponse.Status result = ''completed''
                                                          \<or> ChatfireResponse.Status result = ''succeeded'')\<rparr>,
                                                  w'))))))"

definition GetTaskStatus ::
  "video_env \<Rightarrow> string \<Rightarrow> ChatfireClient world \<Rightarrow> (video_error + VideoResult) \<times> ChatfireClient world" where
  "GetTaskStatus env taskID w =
     (let c = self w;
          queryPath = ChatfireClient.QueryEndpoint c;
          queryPath =
            (if Contains queryPath ''{taskId}'' then ReplaceAll queryPath ''{taskId}'' taskID
             else if Contains queryPath ''{task_id}'' then ReplaceAll queryPath ''{task_id}'' taskID
             else queryPath @ ''/'' @ taskID);
          endpoint = ChatfireClient.BaseURL c @ queryPath
      in case NewRequest (net.truncate env) ''GET'' endpoint None of
           Inl err \<Rightarrow> (Inl (CreateRequest err), w)
         | Inr req0 \<Rightarrow>
             (let req = Header_Set ''Authorization'' (''Bearer '' @ ChatfireClient.APIKey c) req0
              in case Do (net.truncate env) (ChatfireClient.HTTPClient c) req w of
                   (Inl err, w') \<Rightarrow> (Inl (SendRequest err), w')
                 | (Inr resp, w') \<Rightarrow>
                     (case ReadAll resp of
                        Inl err \<Rightarrow> (Inl (ReadResponse err), w')
                      | Inr body \<Rightarrow>
                          (case unmarshal_ChatfireTaskResponse env body of
                             Inl err \<Rightarrow> (Inl (ParseResponse err), w')
                           | Inr result \<Rightarrow>
                               (let videoResult =
                                      \<lparr>VideoResult.TaskID = ChatfireTaskResponse.TaskID result,
                                       VideoResult.Status = ChatfireTaskResponse.Status result,
                                       VideoResult.VideoURL = [],
                                       VideoResult.Duration = 0,
                                       VideoResult.Error = [],
                                       VideoResult.Completed =
                                         (ChatfireTaskResponse.Status result = ''completed''
                                          \<or> ChatfireTaskResponse.Status result = ''succeeded'')\<rparr>;
                                    videoResult =
                                      (if ChatfireTaskResponse.Error result \<noteq> []
                                       then videoResult\<lparr>VideoResult.Error := ChatfireTaskResponse.Error result\<rparr>
                                       else videoResult);
                                    videoResult =
                                      (if ChatfireTaskResponse.VideoURL result \<noteq> []
                                       then videoResult\<lparr>VideoResult.VideoURL := ChatfireTaskResponse.VideoURL result,
                                                         VideoResult.Completed := True\<rparr>
                                       else videoResult)
                                in (Inr videoResult, w'))))))"

section \<open>Package ai: the OpenAI-style text client\<close>

text \<open>
  A \<^verbatim>\<open>float64\<close> is its 64 bits: the client only stores and forwards the sampling
  parameters, and the zero value \<^verbatim>\<open>0.0\<close> is the word \<open>0\<close>.
\<close>

type_synonym float64 = "64 word"

record OpenAIClient =
  BaseURL :: string
  APIKey :: string
  Model :: string
  Endpoint :: string
  HTTPClient :: http_client

record ChatMessage =
  Role :: string
  Content :: string

record ChatCompletionRequest =
  Model :: string
  Messages :: "ChatMessage list"
  Temperature :: float64
  MaxTokens :: int
  TopP :: float64
  Stream :: bool

text \<open>
  The anonymous struct types of \<^verbatim>\<open>ChatCompletionResponse\<close> and \<^verbatim>\<open>ErrorResponse\<close> get
  names: \<open>ChoiceMessage\<close>, \<open>Choice\<close>, \<open>TokenUsage\<close> and \<open>ErrorDetail\<close>.
\<close>

record ChoiceMessage =
  Role :: string
  Content :: string

record Choice =
  Index :: int
  Message :: ChoiceMessage
  FinishReason :: string

record TokenUsage =
  PromptTokens :: int
  CompletionTokens :: int
  TotalTokens :: int

record ChatCompletionResponse =
  ID :: string
  Object :: string
  Created :: int
  Model :: string
  Choices :: "Choice list"
  Usage :: TokenUsage

record ErrorDetail =
  Message :: string
  Type :: string
  Code :: string

record ErrorResponse =
  Error :: ErrorDetail

text \<open>
  The errors of the text client, one constructor for each \<^verbatim>\<open>fmt.Errorf\<close>, carrying
  the arguments of its format.
\<close>

datatype ai_error =
    FailedToMarshalRequest string
  | FailedToCreateRequest string
  | FailedToSendRequest string
  | FailedToReadResponse string
  | APIErrorStatus int string
  | APIErrorMessage string
  | FailedToUnmarshalResponse string string
  | NoResponseFromAPI


record ai_env = net +
  marshal_ChatCompletionRequest :: "ChatCompletionRequest \<Rightarrow> string + string"
  unmarshal_ErrorResponse :: "string \<Rightarrow> string + ErrorResponse"
  unmarshal_ChatCompletionResponse :: "string \<Rightarrow> string + ChatCompletionResponse"

definition NewOpenAIClient :: "string \<Rightarrow> string \<Rightarrow> string \<Rightarrow> string \<Rightarrow> OpenAIClient" where
  "NewOpenAIClient baseURL apiKey model endpoint =
     (let endpoint = (if endpoint = [] then ''/v1/chat/completions'' else endpoint)
      in \<lparr>OpenAIClient.BaseURL = baseURL,
          OpenAIClient.APIKey = apiKey,
          OpenAIClient.Model = model,
          OpenAIClient.Endpoint = endpoint,
          OpenAIClient.HTTPClient = \<lparr>Timeout = 10 * Minute\<rparr>\<rparr>)"

definition sendChatRequest ::
  "ai_env \<Rightarrow> ChatCompletionRequest \<Rightarrow> OpenAIClient world
     \<Rightarrow> (ai_error + ChatCompletionResponse) \<times> OpenAIClient world" where
  "sendChatRequest env req w =
     (let c = self w
      in case marshal_ChatCompletionRequest env req of
           Inl err \<Rightarrow> (Inl (FailedToMarshalRequest err), w)
         | Inr jsonData \<Rightarrow>
             (let url = OpenAIClient.BaseURL c @ OpenAIClient.Endpoint c
              in case NewRequest (net.truncate env) ''POST'' url (Some jsonData) of
                   Inl err \<Rightarrow> (Inl (FailedToCreateRequest err), w)
                 | Inr httpReq0 \<Rightarrow>
                     (let httpReq = Header_Set ''Authorization'' (''Bearer '' @ OpenAIClient.APIKey c)
                                      (Header_Set ''Content-Type'' ''application/json'' httpReq0)
                      in case Do (net.truncate env) (OpenAIClient.HTTPClient c) httpReq w of
                           (Inl err, w') \<Rightarrow> (Inl (FailedToSendRequest err), w')
                         | (Inr resp, w') \<Rightarrow>
                             (case ReadAll resp of
                                Inl err \<Rightarrow> (Inl (FailedToReadResponse err), w')
                              | Inr body \<Rightarrow>
                                  if StatusCode resp \<noteq> 200
                                  then (case unmarshal_ErrorResponse env body of
                                          Inl err \<Rightarrow> (Inl (APIErrorStatus (StatusCode resp) body), w')
                                        | Inr errResp \<Rightarrow>
                                            (Inl (APIErrorMessage (ErrorDetail.Message (ErrorResponse.Error errResp))), w'))
                                  else (case unmarshal_ChatCompletionResponse env body of
                                          Inl err \<Rightarrow>
                                            (let errorPreview = (if length body > 200 then take 200 body else body)
                                             in (Inl (FailedToUnmarshalResponse err errorPreview), w'))
                                        | Inr chatResp \<Rightarrow> (Inr chatResp, w'))))))"

fun apply_options ::
  "(ChatCompletionRequest \<Rightarrow> ChatCompletionRequest) list \<Rightarrow> ChatCompletionRequest \<Rightarrow> ChatCompletionRequest" where
  "apply_options [] req = req"
| "apply_options (option # options) req = apply_options options (option req)"

definition ChatCompletion ::
  "ai_env \<Rightarrow> ChatMessage list \<Rightarrow> (ChatCompletionRequest \<Rightarrow> ChatCompletionRequest) list
     \<Rightarrow> OpenAIClient world \<Rightarrow> (ai_error + ChatCompletionResponse) \<times> OpenAIClient world" where
  "ChatCompletion env messages options w =
     (let req = \<lparr>ChatCompletionRequest.Model = OpenAIClient.Model (self w),
                 Messages = messages,
                 Temperature = 0,
                 MaxTokens = 0,
                 TopP = 0,
                 Stream = False\<rparr>
      in sendChatRequest env (apply_options options req) w)"

definition WithTemperature :: "float64 \<Rightarrow> ChatCompletionRequest \<Rightarrow> ChatCompletionRequest" where
  "WithTemperature temp req = req\<lparr>Temperature := temp\<rparr>"

definition WithMaxTokens :: "int \<Rightarrow> ChatCompletionRequest \<Rightarrow> ChatCompletionRequest" where
  "WithMaxTokens tokens req = req\<lparr>MaxTokens := tokens\<rparr>"

definition WithTopP :: "float64 \<Rightarrow> ChatCompletionRequest \<Rightarrow> ChatCompletionRequest" where
  "WithTopP topP req = req\<lparr>TopP := topP\<rparr>"

text \<open>
  \<^verbatim>\<open>GenerateText\<close> returns a pair \<^verbatim>\<open>(string, error)\<close>; the error is \<open>None\<close> for
  \<^verbatim>\<open>nil\<close>. \<^verbatim>\<open>resp.Choices[0]\<close> is read only after the length check, so the index
  is in range where the model takes the head of the list.
\<close>

definition GenerateText ::
  "ai_env \<Rightarrow> string \<Rightarrow> string \<Rightarrow> (ChatCompletionRequest \<Rightarrow> ChatCompletionRequest) list
     \<Rightarrow> OpenAIClient world \<Rightarrow> (string \<times> ai_error option) \<times> OpenAIClient world" where
  "GenerateText env prompt systemPrompt options w =
     (let messages = [];
          messages = (if systemPrompt \<noteq> []
                      then messages @ [\<lparr>ChatMessage.Role = ''system'', ChatMessage.Content = systemPrompt\<rparr>]
                      else messages);
          messages = messages @ [\<lparr>ChatMessage.Role = ''user'', ChatMessage.Content = prompt\<rparr>]
      in case ChatCompletion env messages options w of
           (Inl err, w') \<Rightarrow> (([], Some err), w')
         | (Inr resp, w') \<Rightarrow>
             (case Choices resp of
                [] \<Rightarrow> (([], Some NoResponseFromAPI), w')
              | choice # _ \<Rightarrow> ((ChoiceMessage.Content (Choice.Message choice), None), w')))"

definition TestConnection :: "ai_env \<Rightarrow> OpenAIClient world \<Rightarrow> ai_error option \<times> OpenAIClient world" where
  "TestConnection env w =
     (let messages = [\<lparr>ChatMessage.Role = ''user'', ChatMessage.Content = ''Hello''\<rparr>]
      in case ChatCompletion env messages [WithMaxTokens 10] w of
           (Inl err, w') \<Rightarrow> (Some err, w')
         | (Inr resp, w') \<Rightarrow> (None, w'))"

section \<open>Example providers\<close>

text \<open>
  Concrete parameters, on which the theorems below are run. The JSON functions are
  tables and a plain encoder: they agree with \<^verbatim>\<open>encoding/json\<close> on the bodies listed
  and on strings that need no escaping, and reject every other body.
\<close>

definition example_marshal_ChatfireRequest :: "ChatfireRequest \<Rightarrow> string + string" where
  \<open>example_marshal_ChatfireRequest r =
     Inr (''{"model":"'' @ ChatfireRequest.Model r @ ''","prompt":"'' @ Prompt r @ ''"''
          @ (if ImageURL r = [] then [] else '',"image_url":"'' @ ImageURL r @ ''"'')
          @ (if ChatfireRequest.Duration r = 0 then []
             else '',"duration":'' @ fmt_d (ChatfireRequest.Duration r))
          @ (if Size r = [] then [] else '',"size":"'' @ Size r @ ''"'')
          @ ''}'')\<close>

definition example_unmarshal_ChatfireResponse :: "string \<Rightarrow> string + ChatfireResponse" where
  \<open>example_unmarshal_ChatfireResponse body =
     (if body = ''{"task_id":"t1","status":"queued"}''
      then Inr \<lparr>ChatfireResponse.TaskID = ''t1'', ChatfireResponse.Status = ''queued'',
                ChatfireResponse.Error = []\<rparr>
      else if body = ''{"task_id":"t1","status":"succeeded"}''
      then Inr \<lparr>ChatfireResponse.TaskID = ''t1'', ChatfireResponse.Status = ''succeeded'',
                ChatfireResponse.Error = []\<rparr>
      else if body = ''{"task_id":"","status":"failed","error":"prompt rejected"}''
      then Inr \<lparr>ChatfireResponse.TaskID = [], ChatfireResponse.Status = ''failed'',
                ChatfireResponse.Error = ''prompt rejected''\<rparr>
      else if body = ''{"task_id":"t1","status":"succeeded","error":"quota exceeded"}''
      then Inr \<lparr>ChatfireResponse.TaskID = ''t1'', ChatfireResponse.Status = ''succeeded'',
                ChatfireResponse.Error = ''quota exceeded''\<rparr>
      else Inl ''invalid character'')\<close>

definition example_unmarshal_ChatfireTaskResponse :: "string \<Rightarrow> string + ChatfireTaskResponse" where
  \<open>example_unmarshal_ChatfireTaskResponse body =
     (if body = ''{"task_id":"t1","status":"running"}''
      then Inr \<lparr>ChatfireTaskResponse.TaskID = ''t1'', ChatfireTaskResponse.Status = ''running'',
                ChatfireTaskResponse.VideoURL = [], ChatfireTaskResponse.Error = []\<rparr>
      else if body = ''{"task_id":"t1","status":"succeeded","video_url":"https://x/vid.mp4"}''
      then Inr \<lparr>ChatfireTaskResponse.TaskID = ''t1'', ChatfireTaskResponse.Status = ''succeeded'',
                ChatfireTaskResponse.VideoURL = ''https://x/vid.mp4'', ChatfireTaskResponse.Error = []\<rparr>
      else if body = ''{"task_id":"t1","status":"running","video_url":"https://x/vid.mp4"}''
      then Inr \<lparr>ChatfireTaskResponse.TaskID = ''t1'', ChatfireTaskResponse.Status = ''running'',
                ChatfireTaskResponse.VideoURL = ''https://x/vid.mp4'', ChatfireTaskResponse.Error = []\<rparr>
      else if body = ''{"task_id":"t1","status":"completed"}''
      then Inr \<lparr>ChatfireTaskResponse.TaskID = ''t1'', ChatfireTaskResponse.Status = ''completed'',
                ChatfireTaskResponse.VideoURL = [], ChatfireTaskResponse.Error = []\<rparr>
      else if body = ''{"task_id":"t1","status":"failed","error":"render failed"}''
      then Inr \<lparr>ChatfireTaskResponse.TaskID = ''t1'', ChatfireTaskResponse.Status = ''failed'',
                ChatfireTaskResponse.VideoURL = [], ChatfireTaskResponse.Error = ''render failed''\<rparr>
      else if body = ''{"task_id":"t1","status":"succeeded","error":"quota exceeded"}''
      then Inr \<lparr>ChatfireTaskResponse.TaskID = ''t1'', ChatfireTaskResponse.Status = ''succeeded'',
                ChatfireTaskResponse.VideoURL = [], ChatfireTaskResponse.Error = ''quota exceeded''\<rparr>
      else if body = ''{"task_id":"t1","status":"failed","video_url":"https://x/vid.mp4","error":"render failed"}''
      then Inr \<lparr>ChatfireTaskResponse.TaskID = ''t1'', ChatfireTaskResponse.Status = ''failed'',
                ChatfireTaskResponse.VideoURL = ''https://x/vid.mp4'',
                ChatfireTaskResponse.Error = ''render failed''\<rparr>
      else Inl ''invalid character'')\<close>

definition video_fixture ::
  "(http_client \<Rightarrow> http_request list \<Rightarrow> http_request \<Rightarrow> string + http_response) \<Rightarrow> video_env" where
  "video_fixture provider =
     \<lparr>url_error = (\<lambda>u. None),
      round_trip = provider,
      marshal_ChatfireRequest = example_marshal_ChatfireRequest,
      unmarshal_ChatfireResponse = example_unmarshal_ChatfireResponse,
      unmarshal_ChatfireTaskResponse = example_unmarshal_ChatfireTaskResponse\<rparr>"

text \<open>
  The scenario of the specification: the submission is answered \<open>queued\<close>, the first
  poll \<open>running\<close>, and every later poll \<open>succeeded\<close> with the video's URL.
\<close>

definition scenario_provider ::
  "http_client \<Rightarrow> http_request list \<Rightarrow> http_request \<Rightarrow> string + http_response" where
  \<open>scenario_provider hc sent req =
     (if Method req = ''POST''
      then Inr \<lparr>StatusCode = 200, ReadAll = Inr ''{"task_id":"t1","status":"queued"}''\<rparr>
      else if filter (\<lambda>r. Method r = ''GET'') sent = []
      then Inr \<lparr>StatusCode = 200, ReadAll = Inr ''{"task_id":"t1","status":"running"}''\<rparr>
      else Inr \<lparr>StatusCode = 200,
                 ReadAll = Inr ''{"task_id":"t1","status":"succeeded","video_url":"https://x/vid.mp4"}''\<rparr>)\<close>

text \<open>
  A provider that delivers the video while its status string still says \<open>running\<close>; one
  that reports success by its status string alone; one that answers every request with
  an error field in a 200 response; one that is down.
\<close>

definition finished_provider ::
  "http_client \<Rightarrow> http_request list \<Rightarrow> http_request \<Rightarrow> string + http_response" where
  \<open>finished_provider hc sent req =
     (if Method req = ''POST''
      then Inr \<lparr>StatusCode = 201, ReadAll = Inr ''{"task_id":"t1","status":"succeeded"}''\<rparr>
      else Inr \<lparr>StatusCode = 200, ReadAll = Inr ''{"task_id":"t1","status":"completed"}''\<rparr>)\<close>

definition early_provider ::
  "http_client \<Rightarrow> http_request list \<Rightarrow> http_request \<Rightarrow> string + http_response" where
  \<open>early_provider hc sent req =
     Inr \<lparr>StatusCode = 200,
          ReadAll = Inr ''{"task_id":"t1","status":"running","video_url":"https://x/vid.mp4"}''\<rparr>\<close>

definition rejecting_provider ::
  "http_client \<Rightarrow> http_request list \<Rightarrow> http_request \<Rightarrow> string + http_response" where
  \<open>rejecting_provider hc sent req =
     (if Method req = ''POST''
      then Inr \<lparr>StatusCode = 200,
                ReadAll = Inr ''{"task_id":"","status":"failed","error":"prompt rejected"}''\<rparr>
      else Inr \<lparr>StatusCode = 200,
                ReadAll = Inr ''{"task_id":"t1","status":"failed","error":"render failed"}''\<rparr>)\<close>

text \<open>
  A provider whose 200 response says \<open>succeeded\<close> and carries an error field, to the
  submission and to the poll alike; and one whose poll response carries the video's URL
  together with the status \<open>failed\<close> and an error field.
\<close>

definition conflicting_provider ::
  "http_client \<Rightarrow> http_request list \<Rightarrow> http_request \<Rightarrow> string + http_response" where
  \<open>conflicting_provider hc sent req =
     Inr \<lparr>StatusCode = 200,
          ReadAll = Inr ''{"task_id":"t1","status":"succeeded","error":"quota exceeded"}''\<rparr>\<close>

definition delivering_provider ::
  "http_client \<Rightarrow> http_request list \<Rightarrow> http_request \<Rightarrow> string + http_response" where
  \<open>delivering_provider hc sent req =
     Inr \<lparr>StatusCode = 200,
          ReadAll = Inr ''{"task_id":"t1","status":"failed","video_url":"https://x/vid.mp4","error":"render failed"}''\<rparr>\<close>


definition example_client :: ChatfireClient where
  "example_client = NewChatfireClient ''https://api.example.com'' ''sk-test'' ''video-1'' [] []"

definition start :: "ChatfireClient world" where
  "start = \<lparr>self = example_client, wire = []\<rparr>"

text \<open>
  The worlds of the scenario: after the submission, after the first poll (\<open>running\<close>)
  and after the second poll (\<open>succeeded\<close>).
\<close>

definition submitted :: "ChatfireClient world" where
  "submitted =
     snd (GenerateVideo (video_fixture scenario_provider) ''https://img/1.png'' ''a cat'' [] start)"

definition polled_once :: "ChatfireClient world" where
  "polled_once = snd (GetTaskStatus (video_fixture scenario_provider) ''t1'' submitted)"

definition polled_twice :: "ChatfireClient world" where
  "polled_twice = snd (GetTaskStatus (video_fixture scenario_provider) ''t1'' polled_once)"

text \<open>
  The text client's examples. The encoder agrees with \<^verbatim>\<open>json.Marshal\<close> on requests
  whose \<open>Temperature\<close>, \<open>TopP\<close> and \<open>Stream\<close> are zero (\<^verbatim>\<open>omitempty\<close> drops them).
\<close>

fun example_messages :: "ChatMessage list \<Rightarrow> string" where
  \<open>example_messages [] = []\<close>
| \<open>example_messages [m] =
     ''{"role":"'' @ ChatMessage.Role m @ ''","content":"'' @ ChatMessage.Content m @ ''"}''\<close>
| \<open>example_messages (m # m' # ms) =
     ''{"role":"'' @ ChatMessage.Role m @ ''","content":"'' @ ChatMessage.Content m @ ''"},''
     @ example_messages (m' # ms)\<close>

definition example_marshal_ChatCompletionRequest :: "ChatCompletionRequest \<Rightarrow> string + string" where
  \<open>example_marshal_ChatCompletionRequest r =
     Inr (''{"model":"'' @ ChatCompletionRequest.Model r @ ''","messages":[''
          @ example_messages (Messages r) @ '']''
          @ (if MaxTokens r = 0 then [] else '',"max_tokens":'' @ fmt_d (MaxTokens r))
          @ ''}'')\<close>

definition limit_body :: string where
  \<open>limit_body =
     ''{"error":{"message":"Rate limit reached","type":"requests","code":"rate_limit_exceeded"}}''\<close>

definition answer_body :: string where
  \<open>answer_body =
     ''{"id":"c1","object":"chat.completion","created":1,"model":"gpt","choices":[{"index":0,"message":{"role":"assistant","content":"Hi there"},"finish_reason":"stop"}],"usage":{"prompt_tokens":1,"completion_tokens":2,"total_tokens":3}}''\<close>

definition answer_parsed :: ChatCompletionResponse where
  "answer_parsed =
     \<lparr>ID = ''c1'', Object = ''chat.completion'', Created = 1,
      ChatCompletionResponse.Model = ''gpt'',
      Choices = [\<lparr>Index = 0,
                  Choice.Message = \<lparr>ChoiceMessage.Role = ''assistant'',
                                    ChoiceMessage.Content = ''Hi there''\<rparr>,
                  FinishReason = ''stop''\<rparr>],
      Usage = \<lparr>PromptTokens = 1, CompletionTokens = 2, TotalTokens = 3\<rparr>\<rparr>"

definition silent_body :: string where
  \<open>silent_body =
     ''{"id":"c2","object":"chat.completion","created":1,"model":"gpt","choices":[],"usage":{"prompt_tokens":1,"completion_tokens":0,"total_tokens":1}}''\<close>

definition silent_parsed :: ChatCompletionResponse where
  "silent_parsed =
     \<lparr>ID = ''c2'', Object = ''chat.completion'', Created = 1,
      ChatCompletionResponse.Model = ''gpt'',
      Choices = [],
      Usage = \<lparr>PromptTokens = 1, CompletionTokens = 0, TotalTokens = 1\<rparr>\<rparr>"

definition example_unmarshal_ErrorResponse :: "string \<Rightarrow> string + ErrorResponse" where
  "example_unmarshal_ErrorResponse body =
     (if body = limit_body
      then Inr \<lparr>ErrorResponse.Error =
                  \<lparr>ErrorDetail.Message = ''Rate limit reached'', Type = ''requests'',
                   Code = ''rate_limit_exceeded''\<rparr>\<rparr>
      else Inl ''invalid character'')"

definition example_unmarshal_ChatCompletionResponse :: "string \<Rightarrow> string + ChatCompletionResponse" where
  "example_unmarshal_ChatCompletionResponse body =
     (if body = answer_body then Inr answer_parsed
      else if body = silent_body then Inr silent_parsed
      else Inl ''invalid character'')"

definition ai_fixture ::
  "(http_client \<Rightarrow> http_request list \<Rightarrow> http_request \<Rightarrow> string + http_response) \<Rightarrow> ai_env" where
  "ai_fixture provider =
     \<lparr>url_error = (\<lambda>u. None),
      round_trip = provider,
      marshal_ChatCompletionRequest = example_marshal_ChatCompletionRequest,
      unmarshal_ErrorResponse = example_unmarshal_ErrorResponse,
      unmarshal_ChatCompletionResponse = example_unmarshal_ChatCompletionResponse\<rparr>"

text \<open>
  A provider that answers, one that answers with no choice, and one that refuses with
  status 429 and an error object.
\<close>

definition answering_provider ::
  "http_client \<Rightarrow> http_request list \<Rightarrow> http_request \<Rightarrow> string + http_response" where
  "answering_provider hc sent req = Inr \<lparr>StatusCode = 200, ReadAll = Inr answer_body\<rparr>"



definition example_ai_client :: OpenAIClient where
  "example_ai_client = NewOpenAIClient ''https://llm.example.com'' ''sk-test'' ''gpt'' []"

definition ai_start :: "OpenAIClient world" where
  "ai_start = \<lparr>self = example_ai_client, wire = []\<rparr>"


section \<open>Path resolution as the specification words it\<close>

text \<open>
  The specification substitutes the identifier for a named placeholder. Independently of
  \<open>ReplaceAll\<close>: the template is cut at the occurrences of the placeholder
  (\<^verbatim>\<open>strings.Split\<close>) and the pieces are joined with the identifier between them
  (\<^verbatim>\<open>strings.Join\<close>). \<open>resolve_path\<close> tries \<^verbatim>\<open>{taskId}\<close>, then \<^verbatim>\<open>{task_id}\<close>, and
  otherwise appends the identifier as a trailing segment.
\<close>

fun Split :: "string \<Rightarrow> string \<Rightarrow> string list" where
  "Split [] sep = [[]]"
| "Split (c # cs) sep =
     (if sep \<noteq> [] \<and> HasPrefix (c # cs) sep
      then [] # Split (drop (length sep - 1) cs) sep
      else (case Split cs sep of
              [] \<Rightarrow> [[c]]
            | piece # pieces \<Rightarrow> (c # piece) # pieces))"

fun Join :: "string list \<Rightarrow> string \<Rightarrow> string" where
  "Join [] sep = []"
| "Join [piece] sep = piece"
| "Join (piece # piece' # pieces) sep = piece @ sep @ Join (piece' # pieces) sep"

definition substitute :: "string \<Rightarrow> string \<Rightarrow> string \<Rightarrow> string" where
  "substitute placeholder identifier template = Join (Split template placeholder) identifier"

definition resolve_path :: "string \<Rightarrow> string \<Rightarrow> string" where
  "resolve_path template identifier =
     (if Contains template ''{taskId}'' then substitute ''{taskId}'' identifier template
      else if Contains template ''{task_id}'' then substitute ''{task_id}'' identifier template
      else template @ ''/'' @ identifier)"

section \<open>The structured-output decoder\<close>

text \<open>
  Modelled from the spec: the decoder (\<^verbatim>\<open>utils.SafeParseAIJSON\<close>, which the script
  generation service calls on the text of every completion) is not among the source
  files. The definitions of this section follow section 4.2 of the specification, step
  by step. The parse against the target shape is a parameter \<open>parse\<close>, as is the bound
  of the error's preview.
\<close>

text \<open>
  Modelled from the spec: the white space of "trimmed text": the blank, the tab, the
  line feed and the carriage return.
\<close>

definition is_space :: "char \<Rightarrow> bool" where
  "is_space c \<longleftrightarrow> c = CHR '' '' \<or> c = CHR 0x09 \<or> c = CHR 0x0A \<or> c = CHR 0x0D"

text \<open>
  Modelled from the spec: "trimmed text", white space removed at both ends.
\<close>

definition TrimSpace :: "string \<Rightarrow> string" where
  "TrimSpace s = rev (dropWhile is_space (rev (dropWhile is_space s)))"

text \<open>
  Modelled from the spec: the test for a "trailing" wrapper, a prefix test on the
  reversed text.
\<close>

definition HasSuffix :: "string \<Rightarrow> string \<Rightarrow> bool" where
  "HasSuffix s suffix = HasPrefix (rev s) (rev suffix)"

text \<open>
  Modelled from the spec: step 1, "strip a single leading/trailing code-fence wrapper if
  present". A fence is three backquotes; the leading one may carry the language tag
  \<^verbatim>\<open>json\<close>.
\<close>

definition fence :: string where
  "fence = [CHR 0x60, CHR 0x60, CHR 0x60]"

text \<open>
  Modelled from the spec: step 1, the "leading" wrapper, with the tag or without.
\<close>

definition strip_leading_fence :: "string \<Rightarrow> string" where
  "strip_leading_fence t =
     (if HasPrefix t (fence @ ''json'') then drop (length (fence @ ''json'')) t
      else if HasPrefix t fence then drop (length fence) t
      else t)"

text \<open>
  Modelled from the spec: step 1, the "trailing" wrapper.
\<close>

definition strip_trailing_fence :: "string \<Rightarrow> string" where
  "strip_trailing_fence t =
     (if HasSuffix t fence then take (length t - length fence) t else t)"

text \<open>
  Modelled from the spec: step 1 as a whole; its result is the "trimmed text" of step 2.
\<close>

definition strip_fence :: "string \<Rightarrow> string" where
  "strip_fence raw = TrimSpace (strip_trailing_fence (strip_leading_fence (TrimSpace raw)))"

text \<open>
  Modelled from the spec: step 3, "locate the first \<^verbatim>\<open>{\<close> and the last \<^verbatim>\<open>}\<close> (or first
  \<^verbatim>\<open>[\<close>/last \<^verbatim>\<open>]\<close>) and attempt parse of that substring". \<open>between\<close> is the substring
  from the first opening token to the last closing token after it, if there is one; the
  object's substring is tried before the array's.
\<close>

definition between :: "char \<Rightarrow> char \<Rightarrow> string \<Rightarrow> string option" where
  "between opening closing t =
     (let fromFirst = dropWhile (\<lambda>c. c \<noteq> opening) t;
          toLast = rev (dropWhile (\<lambda>c. c \<noteq> closing) (rev fromFirst))
      in if toLast = [] then None else Some toLast)"

text \<open>
  Modelled from the spec: step 3, the substrings to try: the object's, then the array's.
\<close>

definition candidates :: "string \<Rightarrow> string list" where
  "candidates t =
     (case between CHR ''{'' CHR ''}'' t of None \<Rightarrow> [] | Some s \<Rightarrow> [s])
     @ (case between CHR ''['' CHR '']'' t of None \<Rightarrow> [] | Some s \<Rightarrow> [s])"

text \<open>
  Modelled from the spec: "attempt parse", "short-circuiting on first success".
\<close>

fun first_parse :: "(string \<Rightarrow> 'a option) \<Rightarrow> string list \<Rightarrow> 'a option" where
  "first_parse parse [] = None"
| "first_parse parse (s # ss) =
     (case parse s of Some v \<Rightarrow> Some v | None \<Rightarrow> first_parse parse ss)"

text \<open>
  Modelled from the spec: step 4, "if the substring is unbalanced (more opens than
  closes), append the minimum sequence of closing brackets/braces needed to balance, in
  LIFO order of the open tokens encountered, then retry parse". \<open>closers\<close> scans the
  substring with the stack of the closing tokens still owed, the latest on top.
\<close>

fun closers :: "string \<Rightarrow> string \<Rightarrow> string" where
  "closers [] owed = owed"
| "closers (c # cs) owed =
     (if c = CHR ''{'' then closers cs (CHR ''}'' # owed)
      else if c = CHR ''['' then closers cs (CHR '']'' # owed)
      else if c = CHR ''}'' \<or> c = CHR '']'' then closers cs (drop 1 owed)
      else closers cs owed)"

text \<open>
  Modelled from the spec: step 4, the repair of one substring: none when nothing is
  owed, the substring with the owed closing tokens appended otherwise.
\<close>

definition repaired :: "string \<Rightarrow> string list" where
  "repaired s = (let owed = closers s [] in if owed = [] then [] else [s @ owed])"

text \<open>
  Modelled from the spec: the error of step 5, "a \<^verbatim>\<open>DecodeError\<close> carrying a bounded
  preview of the raw text".
\<close>

datatype decode_error = DecodeError string

text \<open>
  Modelled from the spec: \<^verbatim>\<open>decode(rawText, targetShape)\<close>, the five steps "applied in
  order, short-circuiting on first success".
\<close>

definition decode :: "(string \<Rightarrow> 'a option) \<Rightarrow> nat \<Rightarrow> string \<Rightarrow> decode_error + 'a" where
  "decode parse limit rawText =
     (let t = strip_fence rawText
      in case parse t of
           Some v \<Rightarrow> Inr v
         | None \<Rightarrow>
             (case first_parse parse (candidates t) of
                Some v \<Rightarrow> Inr v
              | None \<Rightarrow>
                  (case first_parse parse (concat (map repaired (candidates t))) of
                     Some v \<Rightarrow> Inr v
                   | None \<Rightarrow> Inl (DecodeError (take limit rawText)))))"

text \<open>
  An example target: a structure with one integer field \<^verbatim>\<open>a\<close>, its value standing for
  the structure. Of all texts only \<^verbatim>\<open>{"a":1}\<close> is given a value here; the texts that
  the examples below hand to the parser are, but for this one, not JSON at all.
\<close>

definition example_parse :: "string \<Rightarrow> int option" where
  \<open>example_parse s = (if s = ''{"a":1}'' then Some 1 else None)\<close>

section \<open>Properties of the library functions\<close>

lemma HasPrefix_iff: "HasPrefix s p \<longleftrightarrow> (\<exists>b. s = p @ b)"
  by (induction s p rule: HasPrefix.induct) auto

lemma Contains_iff: "Contains s sub \<longleftrightarrow> (\<exists>a b. s = a @ sub @ b)"
proof (induction s)
  case Nil
  then show ?case by simp
next
  case (Cons c cs)
  show ?case
  proof
    assume "Contains (c # cs) sub"
    then consider "HasPrefix (c # cs) sub" | "Contains cs sub" by auto
    then show "\<exists>a b. c # cs = a @ sub @ b"
    proof cases
      case 1
      then obtain b where "c # cs = sub @ b" by (auto simp: HasPrefix_iff)
      then have "c # cs = [] @ sub @ b" by simp
      then show ?thesis by blast
    next
      case 2
      then obtain a b where "cs = a @ sub @ b" using Cons.IH by blast
      then have "c # cs = (c # a) @ sub @ b" by simp
      then show ?thesis by blast
    qed
  next
    assume "\<exists>a b. c # cs = a @ sub @ b"
    then obtain a b where ab: "c # cs = a @ sub @ b" by blast
    show "Contains (c # cs) sub"
    proof (cases a)
      case Nil
      with ab have "HasPrefix (c # cs) sub" by (auto simp: HasPrefix_iff)
      then show ?thesis by simp
    next
      case (Cons x a')
      with ab have "cs = a' @ sub @ b" by simp
      then have "Contains cs sub" using Cons.IH by blast
      then show ?thesis by simp
    qed
  qed
qed

lemma Split_not_Nil: "Split s sep \<noteq> []"
  by (induction s sep rule: Split.induct) (auto split: list.splits)

lemma ReplaceAll_Split_Join: "ReplaceAll s old new = Join (Split s old) new"
proof (induction s old new rule: ReplaceAll.induct)
  case (1 old new)
  show ?case by simp
next
  case (2 c cs old new)
  show ?case
  proof (cases "old \<noteq> [] \<and> HasPrefix (c # cs) old")
    case True
    obtain q qs where q: "Split (drop (length old - 1) cs) old = q # qs"
      using Split_not_Nil by (cases "Split (drop (length old - 1) cs) old") auto
    with True 2 show ?thesis by simp
  next
    case False
    obtain q qs where q: "Split cs old = q # qs"
      using Split_not_Nil by (cases "Split cs old") auto
    have "Join ((c # q) # qs) new = c # Join (q # qs) new" by (cases qs) auto
    with False 2 q show ?thesis by auto
  qed
qed

lemma Join_Split: "Join (Split s sep) sep = s"
proof (induction s sep rule: Split.induct)
  case (1 sep)
  show ?case by simp
next
  case (2 c cs sep)
  show ?case
  proof (cases "sep \<noteq> [] \<and> HasPrefix (c # cs) sep")
    case True
    then obtain b where b: "c # cs = sep @ b" by (auto simp: HasPrefix_iff)
    with True have d: "drop (length sep - 1) cs = b" by (cases sep) auto
    obtain q qs where q: "Split b sep = q # qs"
      using Split_not_Nil by (cases "Split b sep") auto
    from 2(1)[OF True] d have j: "Join (Split b sep) sep = b" by simp
    from True d have "Split (c # cs) sep = [] # Split b sep" by simp
    then have "Join (Split (c # cs) sep) sep = sep @ Join (Split b sep) sep"
      using q by simp
    with j b show ?thesis by simp
  next
    case False
    obtain q qs where q: "Split cs sep = q # qs"
      using Split_not_Nil by (cases "Split cs sep") auto
    have "Join ((c # q) # qs) sep = c # Join (q # qs) sep" by (cases qs) auto
    with False 2 q show ?thesis by auto
  qed
qed

lemma NewRequest_case:
  "(case NewRequest n method url body of Inl e \<Rightarrow> f e | Inr r \<Rightarrow> g r) =
     (case url_error n url of
        Some e \<Rightarrow> f e
      | None \<Rightarrow> g \<lparr>Method = method, URL = url, Header = [], Body = body\<rparr>)"
  by (simp add: NewRequest_def split: option.splits)

lemmas video_steps = Let_def NewRequest_case Do_def net.truncate_def Header_Set_def

section \<open>The video client\<close>

lemmas video_unfold = Let_def NewRequest_def Do_def net.truncate_def Header_Set_def

lemmas video_eval = GetTaskStatus_def GenerateVideo_def video_unfold
  video_fixture_def start_def example_client_def NewChatfireClient_def
  example_unmarshal_ChatfireTaskResponse_def example_unmarshal_ChatfireResponse_def
  example_marshal_ChatfireRequest_def default_options_def fmt_d_def Second_def

lemma resolve_path_code:
  "resolve_path template identifier =
     (if Contains template ''{taskId}'' then ReplaceAll template ''{taskId}'' identifier
      else if Contains template ''{task_id}'' then ReplaceAll template ''{task_id}'' identifier
      else template @ ''/'' @ identifier)"
  by (simp add: resolve_path_def substitute_def ReplaceAll_Split_Join)

text \<open>
  Claim C3. The URL that \<open>GetTaskStatus\<close> hands to \<^verbatim>\<open>http.NewRequest\<close> is the base URL
  followed by the specification's resolved path: the identifier substituted for
  \<^verbatim>\<open>{taskId}\<close> if the template contains it, otherwise for \<^verbatim>\<open>{task_id}\<close> if the template
  contains that, otherwise appended after a \<^verbatim>\<open>/\<close>. When the URL is refused the call ends
  with that error and sends nothing; otherwise the request sent is a GET of that URL.
\<close>

theorem query_path_resolution:
  "(case url_error env (ChatfireClient.BaseURL (self w) @ resolve_path (QueryEndpoint (self w)) taskID) of
      Some e \<Rightarrow> GetTaskStatus env taskID w = (Inl (CreateRequest e), w)
    | None \<Rightarrow>
        (\<exists>req. wire (snd (GetTaskStatus env taskID w)) = wire w @ [req]
           \<and> Method req = ''GET''
           \<and> URL req = ChatfireClient.BaseURL (self w) @ resolve_path (QueryEndpoint (self w)) taskID))"
  unfolding resolve_path_code
  by (auto simp: GetTaskStatus_def video_unfold split: sum.splits option.splits prod.splits)

theorem query_path_resolution_witness:
  "URL (hd (wire (snd (GetTaskStatus (video_fixture scenario_provider) ''abc123''
       \<lparr>self = NewChatfireClient ''https://api.example.com'' ''sk-test'' ''video-1'' []
                 ''/v1/task/{taskId}'',
        wire = []\<rparr>))))
     = ''https://api.example.com/v1/task/abc123''
   \<and> URL (hd (wire (snd (GetTaskStatus (video_fixture scenario_provider) ''abc123''
       \<lparr>self = NewChatfireClient ''https://api.example.com'' ''sk-test'' ''video-1'' []
                 ''/status/{task_id}/video'',
        wire = []\<rparr>))))
     = ''https://api.example.com/status/abc123/video''
   \<and> URL (hd (wire (snd (GetTaskStatus (video_fixture scenario_provider) ''abc123''
       \<lparr>self = NewChatfireClient ''https://api.example.com'' ''sk-test'' ''video-1'' []
                 ''/trailing'',
        wire = []\<rparr>))))
     = ''https://api.example.com/trailing/abc123''"
  using
    query_path_resolution [where env = "video_fixture scenario_provider" and taskID = "''abc123''"
      and w = "\<lparr>self = NewChatfireClient ''https://api.example.com'' ''sk-test'' ''video-1'' []
                         ''/v1/task/{taskId}'',
                wire = []\<rparr>"]
    query_path_resolution [where env = "video_fixture scenario_provider" and taskID = "''abc123''"
      and w = "\<lparr>self = NewChatfireClient ''https://api.example.com'' ''sk-test'' ''video-1'' []
                         ''/status/{task_id}/video'',
                wire = []\<rparr>"]
    query_path_resolution [where env = "video_fixture scenario_provider" and taskID = "''abc123''"
      and w = "\<lparr>self = NewChatfireClient ''https://api.example.com'' ''sk-test'' ''video-1'' []
                         ''/trailing'',
                wire = []\<rparr>"]
  by (auto simp: resolve_path_def substitute_def video_fixture_def NewChatfireClient_def)

lemmas scenario_eval = video_eval scenario_provider_def submitted_def polled_once_def polled_twice_def

text \<open>
  Claim C2 as stated fails: the client keeps no record of a task. In the scenario the
  second poll reports the task completed, three requests have been sent by then, and a
  further poll of the same task sends a fourth.
\<close>

theorem poll_recontacts_counterexample:
  "VideoResult.Completed (projr (fst (GetTaskStatus (video_fixture scenario_provider) ''t1'' polled_once)))
   \<and> length (wire polled_twice) = 3
   \<and> length (wire (snd (GetTaskStatus (video_fixture scenario_provider) ''t1'' polled_twice))) = 4"
  by (simp add: scenario_eval)

text \<open>
  Claim C2, amended. \<open>GetTaskStatus\<close> has no cache: in every state a call either fails
  to create its request (nothing is sent and the state is unchanged) or sends exactly one
  GET request to the provider, whatever earlier polls of the task reported.
\<close>

theorem poll_always_contacts:
  assumes "GetTaskStatus env taskID w = (res, w')"
  shows "(\<exists>e. res = Inl (CreateRequest e) \<and> w' = w)
         \<or> (\<exists>req. w' = w\<lparr>wire := wire w @ [req]\<rparr> \<and> Method req = ''GET'')"
  using assms
  by (auto simp: GetTaskStatus_def video_unfold split: sum.splits option.splits prod.splits)

theorem poll_always_contacts_witness:
  "\<exists>req. snd (GetTaskStatus (video_fixture scenario_provider) ''t1'' polled_twice)
           = polled_twice\<lparr>wire := wire polled_twice @ [req]\<rparr> \<and> Method req = ''GET''"
  using poll_always_contacts [where env = "video_fixture scenario_provider" and taskID = "''t1''"
      and w = polled_twice
      and res = "fst (GetTaskStatus (video_fixture scenario_provider) ''t1'' polled_twice)"
      and w' = "snd (GetTaskStatus (video_fixture scenario_provider) ''t1'' polled_twice)"]
  by (simp add: scenario_eval)

text \<open>
  What each operation returns once the provider has answered, in terms of the inputs
  alone: the request is the one the operation builds, and the provider's answer to it
  decides the result.
\<close>

lemma GetTaskStatus_answered:
  fixes env :: video_env and w :: "ChatfireClient world" and taskID :: string
  defines "req \<equiv> \<lparr>Method = ''GET'',
                   URL = ChatfireClient.BaseURL (self w) @ resolve_path (QueryEndpoint (self w)) taskID,
                   Header = [(''Authorization'', ''Bearer '' @ ChatfireClient.APIKey (self w))],
                   Body = None\<rparr>"
  assumes "url_error env (ChatfireClient.BaseURL (self w) @ resolve_path (QueryEndpoint (self w)) taskID)
             = None"
    and "round_trip env (ChatfireClient.HTTPClient (self w)) (wire w) req = Inr resp"
    and "ReadAll resp = Inr body"
    and "unmarshal_ChatfireTaskResponse env body = Inr result"
  shows "GetTaskStatus env taskID w =
           (Inr \<lparr>VideoResult.TaskID = ChatfireTaskResponse.TaskID result,
                 VideoResult.Status = ChatfireTaskResponse.Status result,
                 VideoResult.VideoURL = ChatfireTaskResponse.VideoURL result,
                 VideoResult.Duration = 0,
                 VideoResult.Error = ChatfireTaskResponse.Error result,
                 VideoResult.Completed =
                   (ChatfireTaskResponse.Status result = ''completed''
                    \<or> ChatfireTaskResponse.Status result = ''succeeded''
                    \<or> ChatfireTaskResponse.VideoURL result \<noteq> [])\<rparr>,
            w\<lparr>wire := wire w @ [req]\<rparr>)"
  using assms unfolding req_def resolve_path_code
  by (simp add: GetTaskStatus_def video_steps)

lemma GenerateVideo_answered:
  fixes env :: video_env and w :: "ChatfireClient world" and opts :: "VideoOption list"
    and imageURL prompt jsonData :: string
  defines "options \<equiv> apply_opts opts default_options"
  defines "reqBody \<equiv> \<lparr>ChatfireRequest.Model =
                          (if VideoOptions.Model options \<noteq> [] then VideoOptions.Model options
                           else ChatfireClient.Model (self w)),
                        ChatfireRequest.Prompt = prompt,
                        ChatfireRequest.ImageURL = imageURL,
                        ChatfireRequest.Duration = VideoOptions.Duration options,
                        ChatfireRequest.Size = AspectRatio options\<rparr>"
  defines "req \<equiv> \<lparr>Method = ''POST'',
                   URL = ChatfireClient.BaseURL (self w) @ ChatfireClient.Endpoint (self w),
                   Header = [(''Content-Type'', ''application/json''),
                             (''Authorization'', ''Bearer '' @ ChatfireClient.APIKey (self w))],
                   Body = Some jsonData\<rparr>"
  assumes "marshal_ChatfireRequest env reqBody = Inr jsonData"
    and "url_error env (ChatfireClient.BaseURL (self w) @ ChatfireClient.Endpoint (self w)) = None"
    and "round_trip env (ChatfireClient.HTTPClient (self w)) (wire w) req = Inr resp"
    and "ReadAll resp = Inr body"
  shows "GenerateVideo env imageURL prompt opts w =
           (if StatusCode resp \<noteq> 200 \<and> StatusCode resp \<noteq> 201
            then Inl (APIError (StatusCode resp) body)
            else (case unmarshal_ChatfireResponse env body of
                    Inl err \<Rightarrow> Inl (ParseResponse err)
                  | Inr result \<Rightarrow>
                      if ChatfireResponse.Error result \<noteq> []
                      then Inl (ChatfireError (ChatfireResponse.Error result))
                      else Inr \<lparr>VideoResult.TaskID = ChatfireResponse.TaskID result,
                                VideoResult.Status = ChatfireResponse.Status result,
                                VideoResult.VideoURL = [],
                                VideoResult.Duration = VideoOptions.Duration options,
                                VideoResult.Error = [],
                                VideoResult.Completed =
                                  (ChatfireResponse.Status result = ''completed''
                                   \<or> ChatfireResponse.Status result = ''succeeded'')\<rparr>),
            w\<lparr>wire := wire w @ [req]\<rparr>)"
  using assms unfolding req_def reqBody_def options_def
  by (simp add: GenerateVideo_def video_steps split: sum.splits)

text \<open>
  Claim C1. When the provider's answer to the poll request parses to a response with a
  non-empty video URL, \<open>GetTaskStatus\<close> sends that one request and returns a result that
  is completed and carries that URL, whatever the status string (which it passes on),
  the error field and the HTTP status code are.
\<close>

theorem video_url_is_success:
  fixes env :: video_env and w :: "ChatfireClient world" and taskID :: string
  defines "req \<equiv> \<lparr>Method = ''GET'',
                   URL = ChatfireClient.BaseURL (self w) @ resolve_path (QueryEndpoint (self w)) taskID,
                   Header = [(''Authorization'', ''Bearer '' @ ChatfireClient.APIKey (self w))],
                   Body = None\<rparr>"
  assumes "url_error env (ChatfireClient.BaseURL (self w) @ resolve_path (QueryEndpoint (self w)) taskID)
             = None"
    and "round_trip env (ChatfireClient.HTTPClient (self w)) (wire w) req = Inr resp"
    and "ReadAll resp = Inr body"
    and "unmarshal_ChatfireTaskResponse env body = Inr result"
    and "ChatfireTaskResponse.VideoURL result \<noteq> []"
  shows "\<exists>r. GetTaskStatus env taskID w = (Inr r, w\<lparr>wire := wire w @ [req]\<rparr>)
           \<and> VideoResult.Completed r
           \<and> VideoResult.VideoURL r = ChatfireTaskResponse.VideoURL result
           \<and> VideoResult.Status r = ChatfireTaskResponse.Status result"
  using GetTaskStatus_answered [OF assms(2) assms(3) [unfolded req_def] assms(4) assms(5)] assms(6)
  unfolding req_def by simp

lemmas poll_fixture = video_fixture_def start_def example_client_def NewChatfireClient_def
  resolve_path_def substitute_def example_unmarshal_ChatfireTaskResponse_def Second_def

theorem video_url_is_success_witness:
  \<open>\<exists>r. GetTaskStatus (video_fixture early_provider) ''t1'' start =
         (Inr r,
          start\<lparr>wire := [\<lparr>Method = ''GET'', URL = ''https://api.example.com/v1/video/task/t1'',
                           Header = [(''Authorization'', ''Bearer sk-test'')], Body = None\<rparr>]\<rparr>)
       \<and> VideoResult.Completed r
       \<and> VideoResult.VideoURL r = ''https://x/vid.mp4''
       \<and> VideoResult.Status r = ''running''\<close>
  using video_url_is_success [where env = "video_fixture early_provider" and taskID = "''t1''"
      and w = start
      and resp = \<open>\<lparr>StatusCode = 200,
        ReadAll = Inr ''{"task_id":"t1","status":"running","video_url":"https://x/vid.mp4"}''\<rparr>\<close>
      and body = \<open>''{"task_id":"t1","status":"running","video_url":"https://x/vid.mp4"}''\<close>
      and result = "\<lparr>ChatfireTaskResponse.TaskID = ''t1'', ChatfireTaskResponse.Status = ''running'',
        ChatfireTaskResponse.VideoURL = ''https://x/vid.mp4'', ChatfireTaskResponse.Error = []\<rparr>"]
  by (simp add: poll_fixture early_provider_def)

text \<open>
  Claim C4 as stated fails: the two operations do not treat every response alike. The
  same content, status \<open>succeeded\<close> with an error field, gives an error and no result on
  submission and a completed result on the poll.
\<close>

theorem status_normalization_counterexample:
  "fst (GenerateVideo (video_fixture conflicting_provider) [] ''a cat'' [] start)
     = Inl (ChatfireError ''quota exceeded'')
   \<and> fst (GetTaskStatus (video_fixture conflicting_provider) ''t1'' start)
     = Inr \<lparr>VideoResult.TaskID = ''t1'', VideoResult.Status = ''succeeded'',
            VideoResult.VideoURL = [], VideoResult.Duration = 0,
            VideoResult.Error = ''quota exceeded'', VideoResult.Completed = True\<rparr>"
  by (simp add: video_eval conflicting_provider_def)

text \<open>
  Claim C4, amended. The status strings \<^verbatim>\<open>completed\<close> and \<^verbatim>\<open>succeeded\<close>, and no other
  status string by itself, give \<open>Completed\<close>. \<open>GetTaskStatus\<close> applies this test to
  every response that parses, whatever its error field and status code, and a video URL
  gives \<open>Completed\<close> as well. \<open>GenerateVideo\<close> applies the same test only to an accepted
  submission (status code 200 or 201, empty error field); every other response gives an
  error and no result. Both pass the status string on unchanged.
\<close>

theorem status_normalization:
  fixes env :: video_env and w v :: "ChatfireClient world" and opts :: "VideoOption list"
    and imageURL prompt jsonData taskID :: string
  defines "options \<equiv> apply_opts opts default_options"
  defines "reqBody \<equiv> \<lparr>ChatfireRequest.Model =
                          (if VideoOptions.Model options \<noteq> [] then VideoOptions.Model options
                           else ChatfireClient.Model (self w)),
                        ChatfireRequest.Prompt = prompt,
                        ChatfireRequest.ImageURL = imageURL,
                        ChatfireRequest.Duration = VideoOptions.Duration options,
                        ChatfireRequest.Size = AspectRatio options\<rparr>"
  defines "req \<equiv> \<lparr>Method = ''POST'',
                   URL = ChatfireClient.BaseURL (self w) @ ChatfireClient.Endpoint (self w),
                   Header = [(''Content-Type'', ''application/json''),
                             (''Authorization'', ''Bearer '' @ ChatfireClient.APIKey (self w))],
                   Body = Some jsonData\<rparr>"
  defines "preq \<equiv> \<lparr>Method = ''GET'',
                    URL = ChatfireClient.BaseURL (self v) @ resolve_path (QueryEndpoint (self v)) taskID,
                    Header = [(''Authorization'', ''Bearer '' @ ChatfireClient.APIKey (self v))],
                    Body = None\<rparr>"
  shows "(marshal_ChatfireRequest env reqBody = Inr jsonData
          \<and> url_error env (ChatfireClient.BaseURL (self w) @ ChatfireClient.Endpoint (self w)) = None
          \<and> round_trip env (ChatfireClient.HTTPClient (self w)) (wire w) req = Inr resp
          \<and> ReadAll resp = Inr body
          \<and> unmarshal_ChatfireResponse env body = Inr result
        \<longrightarrow> fst (GenerateVideo env imageURL prompt opts w) =
              (if StatusCode resp \<noteq> 200 \<and> StatusCode resp \<noteq> 201
               then Inl (APIError (StatusCode resp) body)
               else if ChatfireResponse.Error result \<noteq> []
               then Inl (ChatfireError (ChatfireResponse.Error result))
               else Inr \<lparr>VideoResult.TaskID = ChatfireResponse.TaskID result,
                         VideoResult.Status = ChatfireResponse.Status result,
                         VideoResult.VideoURL = [],
                         VideoResult.Duration = VideoOptions.Duration options,
                         VideoResult.Error = [],
                         VideoResult.Completed =
                           (ChatfireResponse.Status result = ''completed''
                            \<or> ChatfireResponse.Status result = ''succeeded'')\<rparr>))
       \<and> (url_error env (ChatfireClient.BaseURL (self v) @ resolve_path (QueryEndpoint (self v)) taskID) = None
          \<and> round_trip env (ChatfireClient.HTTPClient (self v)) (wire v) preq = Inr presp
          \<and> ReadAll presp = Inr pbody
          \<and> unmarshal_ChatfireTaskResponse env pbody = Inr presult
        \<longrightarrow> (\<exists>r. fst (GetTaskStatus env taskID v) = Inr r
               \<and> VideoResult.Status r = ChatfireTaskResponse.Status presult
               \<and> (VideoResult.Completed r \<longleftrightarrow>
                    ChatfireTaskResponse.Status presult = ''completed''
                    \<or> ChatfireTaskResponse.Status presult = ''succeeded''
                    \<or> ChatfireTaskResponse.VideoURL presult \<noteq> [])))"
proof (intro conjI impI, goal_cases)
  case 1
  then have m: "marshal_ChatfireRequest env reqBody = Inr jsonData"
    and u: "url_error env (ChatfireClient.BaseURL (self w) @ ChatfireClient.Endpoint (self w)) = None"
    and rt: "round_trip env (ChatfireClient.HTTPClient (self w)) (wire w) req = Inr resp"
    and ra: "ReadAll resp = Inr body"
    and um: "unmarshal_ChatfireResponse env body = Inr result"
    by simp_all
  from GenerateVideo_answered
    [OF m [unfolded reqBody_def options_def] u rt [unfolded req_def] ra] um
  show ?case
    by (simp add: options_def)
next
  case 2
  then have u: "url_error env (ChatfireClient.BaseURL (self v) @ resolve_path (QueryEndpoint (self v)) taskID) = None"
    and rt: "round_trip env (ChatfireClient.HTTPClient (self v)) (wire v) preq = Inr presp"
    and ra: "ReadAll presp = Inr pbody"
    and um: "unmarshal_ChatfireTaskResponse env pbody = Inr presult"
    by simp_all
  from GetTaskStatus_answered [OF u rt [unfolded preq_def] ra um]
  show ?case
    by simp
qed


lemma fmt_d_5: "fmt_d 5 = ''5''"
  by code_simp

lemma fmt_d_8: "fmt_d 8 = ''8''"
  by code_simp

lemmas submit_fixture = video_fixture_def start_def example_client_def NewChatfireClient_def
  example_unmarshal_ChatfireResponse_def example_marshal_ChatfireRequest_def default_options_def
  fmt_d_5 Second_def

theorem status_normalization_witness:
  \<open>fst (GenerateVideo (video_fixture finished_provider) [] ''a cat'' [] start)
     = Inr \<lparr>VideoResult.TaskID = ''t1'', VideoResult.Status = ''succeeded'',
            VideoResult.VideoURL = [], VideoResult.Duration = 5,
            VideoResult.Error = [], VideoResult.Completed = True\<rparr>
   \<and> (\<exists>r. fst (GetTaskStatus (video_fixture finished_provider) ''t1'' start) = Inr r
         \<and> VideoResult.Status r = ''completed'' \<and> VideoResult.Completed r)
   \<and> (\<exists>r. fst (GetTaskStatus (video_fixture scenario_provider) ''t1'' start) = Inr r
         \<and> VideoResult.Status r = ''running'' \<and> \<not> VideoResult.Completed r)\<close>
  using status_normalization [where env = "video_fixture finished_provider"
      and imageURL = "[]" and prompt = "''a cat''" and opts = "[]" and w = start
      and jsonData = \<open>''{"model":"video-1","prompt":"a cat","duration":5,"size":"16:9"}''\<close>
      and resp = \<open>\<lparr>StatusCode = 201, ReadAll = Inr ''{"task_id":"t1","status":"succeeded"}''\<rparr>\<close>
      and body = \<open>''{"task_id":"t1","status":"succeeded"}''\<close>
      and result = "\<lparr>ChatfireResponse.TaskID = ''t1'', ChatfireResponse.Status = ''succeeded'',
                      ChatfireResponse.Error = []\<rparr>"
      and taskID = "''t1''" and v = start
      and presp = \<open>\<lparr>StatusCode = 200, ReadAll = Inr ''{"task_id":"t1","status":"completed"}''\<rparr>\<close>
      and pbody = \<open>''{"task_id":"t1","status":"completed"}''\<close>
      and presult = "\<lparr>ChatfireTaskResponse.TaskID = ''t1'', ChatfireTaskResponse.Status = ''completed'',
                      ChatfireTaskResponse.VideoURL = [], ChatfireTaskResponse.Error = []\<rparr>"]
    status_normalization [where env = "video_fixture scenario_provider"
      and taskID = "''t1''" and v = start
      and presp = \<open>\<lparr>StatusCode = 200, ReadAll = Inr ''{"task_id":"t1","status":"running"}''\<rparr>\<close>
      and pbody = \<open>''{"task_id":"t1","status":"running"}''\<close>
      and presult = "\<lparr>ChatfireTaskResponse.TaskID = ''t1'', ChatfireTaskResponse.Status = ''running'',
                      ChatfireTaskResponse.VideoURL = [], ChatfireTaskResponse.Error = []\<rparr>"]
  by (simp add: submit_fixture poll_fixture finished_provider_def scenario_provider_def)

text \<open>
  Claim C6 as stated fails for the poll: a response with an error field that also
  carries a video URL is reported completed, with the error string beside it.
\<close>

theorem error_with_video_counterexample:
  "fst (GetTaskStatus (video_fixture delivering_provider) ''t1'' start)
     = Inr \<lparr>VideoResult.TaskID = ''t1'', VideoResult.Status = ''failed'',
            VideoResult.VideoURL = ''https://x/vid.mp4'', VideoResult.Duration = 0,
            VideoResult.Error = ''render failed'', VideoResult.Completed = True\<rparr>"
  by (simp add: video_eval delivering_provider_def)

text \<open>
  Claim C6, amended. A response that parses and has a non-empty error field:
  \<open>GenerateVideo\<close> returns an error and no task (the provider's error string when the
  status code is 200 or 201, the API error of the status code otherwise), and
  \<open>GetTaskStatus\<close> returns a result whose \<open>Error\<close> field is that string. That result is
  completed exactly when the status string is \<^verbatim>\<open>completed\<close> or \<^verbatim>\<open>succeeded\<close> or a video
  URL is present; only otherwise does it report a task that has not succeeded.
\<close>

theorem error_field_surfaces:
  fixes env :: video_env and w v :: "ChatfireClient world" and opts :: "VideoOption list"
    and imageURL prompt jsonData taskID :: string
  defines "options \<equiv> apply_opts opts default_options"
  defines "reqBody \<equiv> \<lparr>ChatfireRequest.Model =
                          (if VideoOptions.Model options \<noteq> [] then VideoOptions.Model options
                           else ChatfireClient.Model (self w)),
                        ChatfireRequest.Prompt = prompt,
                        ChatfireRequest.ImageURL = imageURL,
                        ChatfireRequest.Duration = VideoOptions.Duration options,
                        ChatfireRequest.Size = AspectRatio options\<rparr>"
  defines "req \<equiv> \<lparr>Method = ''POST'',
                   URL = ChatfireClient.BaseURL (self w) @ ChatfireClient.Endpoint (self w),
                   Header = [(''Content-Type'', ''application/json''),
                             (''Authorization'', ''Bearer '' @ ChatfireClient.APIKey (self w))],
                   Body = Some jsonData\<rparr>"
  defines "preq \<equiv> \<lparr>Method = ''GET'',
                    URL = ChatfireClient.BaseURL (self v) @ resolve_path (QueryEndpoint (self v)) taskID,
                    Header = [(''Authorization'', ''Bearer '' @ ChatfireClient.APIKey (self v))],
                    Body = None\<rparr>"
  shows "(marshal_ChatfireRequest env reqBody = Inr jsonData
          \<and> url_error env (ChatfireClient.BaseURL (self w) @ ChatfireClient.Endpoint (self w)) = None
          \<and> round_trip env (ChatfireClient.HTTPClient (self w)) (wire w) req = Inr resp
          \<and> ReadAll resp = Inr body
          \<and> unmarshal_ChatfireResponse env body = Inr result
          \<and> ChatfireResponse.Error result \<noteq> []
        \<longrightarrow> fst (GenerateVideo env imageURL prompt opts w) =
              (if StatusCode resp \<noteq> 200 \<and> StatusCode resp \<noteq> 201
               then Inl (APIError (StatusCode resp) body)
               else Inl (ChatfireError (ChatfireResponse.Error result))))
       \<and> (url_error env (ChatfireClient.BaseURL (self v) @ resolve_path (QueryEndpoint (self v)) taskID)
            = None
          \<and> round_trip env (ChatfireClient.HTTPClient (self v)) (wire v) preq = Inr presp
          \<and> ReadAll presp = Inr pbody
          \<and> unmarshal_ChatfireTaskResponse env pbody = Inr presult
          \<and> ChatfireTaskResponse.Error presult \<noteq> []
        \<longrightarrow> (\<exists>r. fst (GetTaskStatus env taskID v) = Inr r
               \<and> VideoResult.Error r = ChatfireTaskResponse.Error presult
               \<and> (VideoResult.Completed r \<longleftrightarrow>
                    ChatfireTaskResponse.Status presult = ''completed''
                    \<or> ChatfireTaskResponse.Status presult = ''succeeded''
                    \<or> ChatfireTaskResponse.VideoURL presult \<noteq> [])))"
proof (intro conjI impI, goal_cases)
  case 1
  then have m: "marshal_ChatfireRequest env reqBody = Inr jsonData"
    and u: "url_error env (ChatfireClient.BaseURL (self w) @ ChatfireClient.Endpoint (self w)) = None"
    and rt: "round_trip env (ChatfireClient.HTTPClient (self w)) (wire w) req = Inr resp"
    and ra: "ReadAll resp = Inr body"
    and um: "unmarshal_ChatfireResponse env body = Inr result"
    and e: "ChatfireResponse.Error result \<noteq> []"
    by simp_all
  from GenerateVideo_answered
    [OF m [unfolded reqBody_def options_def] u rt [unfolded req_def] ra] um e
  show ?case
    by simp
next
  case 2
  then have u: "url_error env (ChatfireClient.BaseURL (self v) @ resolve_path (QueryEndpoint (self v)) taskID) = None"
    and rt: "round_trip env (ChatfireClient.HTTPClient (self v)) (wire v) preq = Inr presp"
    and ra: "ReadAll presp = Inr pbody"
    and um: "unmarshal_ChatfireTaskResponse env pbody = Inr presult"
    by simp_all
  from GetTaskStatus_answered [OF u rt [unfolded preq_def] ra um]
  show ?case
    by simp
qed

theorem error_field_surfaces_witness:
  \<open>fst (GenerateVideo (video_fixture rejecting_provider) [] ''a cat'' [] start)
     = Inl (ChatfireError ''prompt rejected'')
   \<and> (\<exists>r. fst (GetTaskStatus (video_fixture rejecting_provider) ''t1'' start) = Inr r
         \<and> VideoResult.Error r = ''render failed'' \<and> \<not> VideoResult.Completed r)\<close>
  using error_field_surfaces [where env = "video_fixture rejecting_provider"
      and imageURL = "[]" and prompt = "''a cat''" and opts = "[]" and w = start
      and jsonData = \<open>''{"model":"video-1","prompt":"a cat","duration":5,"size":"16:9"}''\<close>
      and resp = \<open>\<lparr>StatusCode = 200,
                    ReadAll = Inr ''{"task_id":"","status":"failed","error":"prompt rejected"}''\<rparr>\<close>
      and body = \<open>''{"task_id":"","status":"failed","error":"prompt rejected"}''\<close>
      and result = "\<lparr>ChatfireResponse.TaskID = [], ChatfireResponse.Status = ''failed'',
                      ChatfireResponse.Error = ''prompt rejected''\<rparr>"
      and taskID = "''t1''" and v = start
      and presp = \<open>\<lparr>StatusCode = 200,
                     ReadAll = Inr ''{"task_id":"t1","status":"failed","error":"render failed"}''\<rparr>\<close>
      and pbody = \<open>''{"task_id":"t1","status":"failed","error":"render failed"}''\<close>
      and presult = "\<lparr>ChatfireTaskResponse.TaskID = ''t1'', ChatfireTaskResponse.Status = ''failed'',
                      ChatfireTaskResponse.VideoURL = [], ChatfireTaskResponse.Error = ''render failed''\<rparr>"]
  by (simp add: submit_fixture poll_fixture rejecting_provider_def)

lemma apply_opts_append: "apply_opts (before @ after) options = apply_opts after (apply_opts before options)"
  by (induction before arbitrary: options) auto

lemma apply_opts_keep:
  assumes "\<forall>opt \<in> set opts. \<forall>x. f (opt x) = f x"
  shows "f (apply_opts opts options) = f options"
  using assms by (induction opts arbitrary: options) auto

lemma apply_opts_set:
  assumes "\<forall>x. f (opt x) = d" and "\<forall>later \<in> set after. \<forall>x. f (later x) = f x"
  shows "f (apply_opts (before @ opt # after) options) = d"
proof -
  have "apply_opts (before @ opt # after) options = apply_opts after (opt (apply_opts before options))"
    by (simp add: apply_opts_append)
  with apply_opts_keep [OF assms(2)] assms(1) show ?thesis
    by simp
qed

lemma GenerateVideo_request:
  fixes env :: video_env and w :: "ChatfireClient world" and opts :: "VideoOption list"
    and imageURL prompt :: string
  defines "options \<equiv> apply_opts opts default_options"
  defines "reqBody \<equiv> \<lparr>ChatfireRequest.Model =
                          (if VideoOptions.Model options \<noteq> [] then VideoOptions.Model options
                           else ChatfireClient.Model (self w)),
                        ChatfireRequest.Prompt = prompt,
                        ChatfireRequest.ImageURL = imageURL,
                        ChatfireRequest.Duration = VideoOptions.Duration options,
                        ChatfireRequest.Size = AspectRatio options\<rparr>"
  shows "(case marshal_ChatfireRequest env reqBody of
            Inl err \<Rightarrow> GenerateVideo env imageURL prompt opts w = (Inl (MarshalRequest err), w)
          | Inr jsonData \<Rightarrow>
              (case url_error env (ChatfireClient.BaseURL (self w) @ ChatfireClient.Endpoint (self w)) of
                 Some err \<Rightarrow> GenerateVideo env imageURL prompt opts w = (Inl (CreateRequest err), w)
               | None \<Rightarrow>
                   wire (snd (GenerateVideo env imageURL prompt opts w)) =
                     wire w @ [\<lparr>Method = ''POST'',
                                URL = ChatfireClient.BaseURL (self w) @ ChatfireClient.Endpoint (self w),
                                Header = [(''Content-Type'', ''application/json''),
                                          (''Authorization'', ''Bearer '' @ ChatfireClient.APIKey (self w))],
                                Body = Some jsonData\<rparr>]))"
proof (cases "marshal_ChatfireRequest env reqBody")
  case (Inl err)
  then show ?thesis
    unfolding reqBody_def options_def by (simp add: GenerateVideo_def Let_def)
next
  case (Inr jsonData)
  show ?thesis
  proof (cases "url_error env (ChatfireClient.BaseURL (self w) @ ChatfireClient.Endpoint (self w))")
    case (Some err)
    with Inr show ?thesis
      unfolding reqBody_def options_def by (simp add: GenerateVideo_def video_steps)
  next
    case None
    with Inr show ?thesis
      unfolding reqBody_def options_def
      by (auto simp: GenerateVideo_def video_steps split: sum.splits)
  qed
qed

text \<open>
  Claim C8. \<open>GenerateVideo\<close> encodes a \<open>ChatfireRequest\<close> with the caller's prompt and
  image URL and sends it as the body of one POST (or ends with the encoder's or the
  URL's error, nothing sent). Its duration is 5 when no option function changes the
  duration and its size is \<^verbatim>\<open>16:9\<close> when none changes the aspect ratio. An option that
  sets the duration, the aspect ratio or the model decides it wherever it stands in the
  list, as long as no later option changes that field; an empty model leaves the
  client's.
\<close>

theorem option_defaults:
  fixes env :: video_env and w :: "ChatfireClient world" and opts :: "VideoOption list"
    and imageURL prompt :: string
  shows "\<exists>reqBody.
      Prompt reqBody = prompt \<and> ImageURL reqBody = imageURL
    \<and> ChatfireRequest.Duration reqBody = VideoOptions.Duration (apply_opts opts default_options)
    \<and> Size reqBody = AspectRatio (apply_opts opts default_options)
    \<and> ((\<forall>opt \<in> set opts. \<forall>x. VideoOptions.Duration (opt x) = VideoOptions.Duration x)
          \<longrightarrow> ChatfireRequest.Duration reqBody = 5)
    \<and> ((\<forall>opt \<in> set opts. \<forall>x. AspectRatio (opt x) = AspectRatio x)
          \<longrightarrow> Size reqBody = ''16:9'')
    \<and> ((\<forall>opt \<in> set opts. \<forall>x. VideoOptions.Model (opt x) = VideoOptions.Model x)
          \<longrightarrow> ChatfireRequest.Model reqBody = ChatfireClient.Model (self w))
    \<and> (\<forall>before opt after d.
          opts = before @ opt # after
          \<and> (\<forall>x. VideoOptions.Duration (opt x) = d)
          \<and> (\<forall>later \<in> set after. \<forall>x. VideoOptions.Duration (later x) = VideoOptions.Duration x)
          \<longrightarrow> ChatfireRequest.Duration reqBody = d)
    \<and> (\<forall>before opt after a.
          opts = before @ opt # after
          \<and> (\<forall>x. AspectRatio (opt x) = a)
          \<and> (\<forall>later \<in> set after. \<forall>x. AspectRatio (later x) = AspectRatio x)
          \<longrightarrow> Size reqBody = a)
    \<and> (\<forall>before opt after m.
          opts = before @ opt # after
          \<and> (\<forall>x. VideoOptions.Model (opt x) = m)
          \<and> (\<forall>later \<in> set after. \<forall>x. VideoOptions.Model (later x) = VideoOptions.Model x)
          \<longrightarrow> ChatfireRequest.Model reqBody = (if m \<noteq> [] then m else ChatfireClient.Model (self w)))
    \<and> (case marshal_ChatfireRequest env reqBody of
          Inl err \<Rightarrow> GenerateVideo env imageURL prompt opts w = (Inl (MarshalRequest err), w)
        | Inr jsonData \<Rightarrow>
            (case url_error env (ChatfireClient.BaseURL (self w) @ ChatfireClient.Endpoint (self w)) of
               Some err \<Rightarrow> GenerateVideo env imageURL prompt opts w = (Inl (CreateRequest err), w)
             | None \<Rightarrow>
                 wire (snd (GenerateVideo env imageURL prompt opts w)) =
                   wire w @ [\<lparr>Method = ''POST'',
                              URL = ChatfireClient.BaseURL (self w) @ ChatfireClient.Endpoint (self w),
                              Header = [(''Content-Type'', ''application/json''),
                                        (''Authorization'', ''Bearer '' @ ChatfireClient.APIKey (self w))],
                              Body = Some jsonData\<rparr>]))"
proof -
  let ?options = "apply_opts opts default_options"
  let ?reqBody = "\<lparr>ChatfireRequest.Model =
                      (if VideoOptions.Model ?options \<noteq> [] then VideoOptions.Model ?options
                       else ChatfireClient.Model (self w)),
                    ChatfireRequest.Prompt = prompt,
                    ChatfireRequest.ImageURL = imageURL,
                    ChatfireRequest.Duration = VideoOptions.Duration ?options,
                    ChatfireRequest.Size = AspectRatio ?options\<rparr>"
  have kd: "(\<forall>opt \<in> set opts. \<forall>x. VideoOptions.Duration (opt x) = VideoOptions.Duration x)
             \<longrightarrow> VideoOptions.Duration ?options = 5"
    using apply_opts_keep [where f = VideoOptions.Duration and opts = opts and options = default_options]
    by (simp add: default_options_def)
  have ka: "(\<forall>opt \<in> set opts. \<forall>x. AspectRatio (opt x) = AspectRatio x)
             \<longrightarrow> AspectRatio ?options = ''16:9''"
    using apply_opts_keep [where f = AspectRatio and opts = opts and options = default_options]
    by (simp add: default_options_def)
  have km: "(\<forall>opt \<in> set opts. \<forall>x. VideoOptions.Model (opt x) = VideoOptions.Model x)
             \<longrightarrow> VideoOptions.Model ?options = []"
    using apply_opts_keep [where f = VideoOptions.Model and opts = opts and options = default_options]
    by (simp add: default_options_def)
  have sd: "\<forall>before opt after d.
          opts = before @ opt # after
          \<and> (\<forall>x. VideoOptions.Duration (opt x) = d)
          \<and> (\<forall>later \<in> set after. \<forall>x. VideoOptions.Duration (later x) = VideoOptions.Duration x)
          \<longrightarrow> VideoOptions.Duration ?options = d"
    using apply_opts_set [where f = VideoOptions.Duration] by blast
  have sa: "\<forall>before opt after a.
          opts = before @ opt # after
          \<and> (\<forall>x. AspectRatio (opt x) = a)
          \<and> (\<forall>later \<in> set after. \<forall>x. AspectRatio (later x) = AspectRatio x)
          \<longrightarrow> AspectRatio ?options = a"
    using apply_opts_set [where f = AspectRatio] by blast
  have sm: "\<forall>before opt after m.
          opts = before @ opt # after
          \<and> (\<forall>x. VideoOptions.Model (opt x) = m)
          \<and> (\<forall>later \<in> set after. \<forall>x. VideoOptions.Model (later x) = VideoOptions.Model x)
          \<longrightarrow> VideoOptions.Model ?options = m"
    using apply_opts_set [where f = VideoOptions.Model] by blast
  note sent = GenerateVideo_request [of env imageURL prompt opts w]
  show ?thesis
    apply (rule exI [where x = ?reqBody])
    apply (intro conjI)
              apply simp
             apply simp
            apply simp
           apply simp
          using kd apply simp
         using ka apply simp
        using km apply simp
       using sd apply simp
      using sa apply simp
     using sm apply (simp; blast)
    using sent apply simp
    done
qed

theorem option_defaults_witness:
  \<open>wire (snd (GenerateVideo (video_fixture scenario_provider) [] ''a cat''
       [\<lambda>x. x\<lparr>VideoOptions.Duration := 8\<rparr>, \<lambda>x. x\<lparr>VideoOptions.Model := ''pro''\<rparr>] start))
     = [\<lparr>Method = ''POST'', URL = ''https://api.example.com/video/generations'',
         Header = [(''Content-Type'', ''application/json''), (''Authorization'', ''Bearer sk-test'')],
         Body = Some ''{"model":"pro","prompt":"a cat","duration":8,"size":"16:9"}''\<rparr>]
   \<and> wire (snd (GenerateVideo (video_fixture scenario_provider) [] ''a cat'' [] start))
     = [\<lparr>Method = ''POST'', URL = ''https://api.example.com/video/generations'',
         Header = [(''Content-Type'', ''application/json''), (''Authorization'', ''Bearer sk-test'')],
         Body = Some ''{"model":"video-1","prompt":"a cat","duration":5,"size":"16:9"}''\<rparr>]\<close>
proof
  let ?dur = "\<lambda>x :: VideoOptions. x\<lparr>VideoOptions.Duration := 8\<rparr>"
  let ?mod = "\<lambda>x :: VideoOptions. x\<lparr>VideoOptions.Model := ''pro''\<rparr>"
  let ?env = "video_fixture scenario_provider"
  from option_defaults [of "''a cat''" "[]" "[?dur, ?mod]" start ?env]
  obtain reqBody where
    p: "Prompt reqBody = ''a cat''" "ImageURL reqBody = []"
    and ka: "(\<forall>opt \<in> set [?dur, ?mod]. \<forall>x. AspectRatio (opt x) = AspectRatio x)
          \<longrightarrow> Size reqBody = ''16:9''"
    and sd: "\<forall>before opt after d.
          [?dur, ?mod] = before @ opt # after
          \<and> (\<forall>x. VideoOptions.Duration (opt x) = d)
          \<and> (\<forall>later \<in> set after. \<forall>x. VideoOptions.Duration (later x) = VideoOptions.Duration x)
          \<longrightarrow> ChatfireRequest.Duration reqBody = d"
    and sm: "\<forall>before opt after m.
          [?dur, ?mod] = before @ opt # after
          \<and> (\<forall>x. VideoOptions.Model (opt x) = m)
          \<and> (\<forall>later \<in> set after. \<forall>x. VideoOptions.Model (later x) = VideoOptions.Model x)
          \<longrightarrow> ChatfireRequest.Model reqBody = (if m \<noteq> [] then m else ChatfireClient.Model (self start))"
    and sent: "(case marshal_ChatfireRequest ?env reqBody of
          Inl err \<Rightarrow> GenerateVideo ?env [] ''a cat'' [?dur, ?mod] start = (Inl (MarshalRequest err), start)
        | Inr jsonData \<Rightarrow>
            (case url_error ?env (ChatfireClient.BaseURL (self start) @ ChatfireClient.Endpoint (self start)) of
               Some err \<Rightarrow> GenerateVideo ?env [] ''a cat'' [?dur, ?mod] start = (Inl (CreateRequest err), start)
             | None \<Rightarrow>
                 wire (snd (GenerateVideo ?env [] ''a cat'' [?dur, ?mod] start)) =
                   wire start @ [\<lparr>Method = ''POST'',
                              URL = ChatfireClient.BaseURL (self start) @ ChatfireClient.Endpoint (self start),
                              Header = [(''Content-Type'', ''application/json''),
                                        (''Authorization'', ''Bearer '' @ ChatfireClient.APIKey (self start))],
                              Body = Some jsonData\<rparr>]))"
    by (elim exE conjE) (erule (4) that)
  from ka have s: "Size reqBody = ''16:9''" by simp
  from sd [rule_format, of "[]" ?dur "[?mod]" 8] have d: "ChatfireRequest.Duration reqBody = 8"
    by simp
  from sm [rule_format, of "[?dur]" ?mod "[]" "''pro''"] have m: "ChatfireRequest.Model reqBody = ''pro''"
    by simp
  from p s d m have "reqBody = \<lparr>ChatfireRequest.Model = ''pro'', Prompt = ''a cat'', ImageURL = [],
                                  ChatfireRequest.Duration = 8, Size = ''16:9''\<rparr>"
    by (cases reqBody) simp
  with sent show \<open>wire (snd (GenerateVideo ?env [] ''a cat'' [?dur, ?mod] start))
     = [\<lparr>Method = ''POST'', URL = ''https://api.example.com/video/generations'',
         Header = [(''Content-Type'', ''application/json''), (''Authorization'', ''Bearer sk-test'')],
         Body = Some ''{"model":"pro","prompt":"a cat","duration":8,"size":"16:9"}''\<rparr>]\<close>
    by (simp add: video_fixture_def start_def example_client_def NewChatfireClient_def
          example_marshal_ChatfireRequest_def fmt_d_8)
next
  let ?env = "video_fixture scenario_provider"
  from option_defaults [of "''a cat''" "[]" "[]" start ?env]
  obtain reqBody where
    p: "Prompt reqBody = ''a cat''" "ImageURL reqBody = []"
    and kd: "(\<forall>opt \<in> set ([] :: VideoOption list). \<forall>x. VideoOptions.Duration (opt x) = VideoOptions.Duration x)
          \<longrightarrow> ChatfireRequest.Duration reqBody = 5"
    and ka: "(\<forall>opt \<in> set ([] :: VideoOption list). \<forall>x. AspectRatio (opt x) = AspectRatio x)
          \<longrightarrow> Size reqBody = ''16:9''"
    and km: "(\<forall>opt \<in> set ([] :: VideoOption list). \<forall>x. VideoOptions.Model (opt x) = VideoOptions.Model x)
          \<longrightarrow> ChatfireRequest.Model reqBody = ChatfireClient.Model (self start)"
    and sent: "(case marshal_ChatfireRequest ?env reqBody of
          Inl err \<Rightarrow> GenerateVideo ?env [] ''a cat'' [] start = (Inl (MarshalRequest err), start)
        | Inr jsonData \<Rightarrow>
            (case url_error ?env (ChatfireClient.BaseURL (self start) @ ChatfireClient.Endpoint (self start)) of
               Some err \<Rightarrow> GenerateVideo ?env [] ''a cat'' [] start = (Inl (CreateRequest err), start)
             | None \<Rightarrow>
                 wire (snd (GenerateVideo ?env [] ''a cat'' [] start)) =
                   wire start @ [\<lparr>Method = ''POST'',
                              URL = ChatfireClient.BaseURL (self start) @ ChatfireClient.Endpoint (self start),
                              Header = [(''Content-Type'', ''application/json''),
                                        (''Authorization'', ''Bearer '' @ ChatfireClient.APIKey (self start))],
                              Body = Some jsonData\<rparr>]))"
    by (elim exE conjE) (erule (5) that)
  from p kd ka km have "reqBody = \<lparr>ChatfireRequest.Model = ''video-1'', Prompt = ''a cat'', ImageURL = [],
                                  ChatfireRequest.Duration = 5, Size = ''16:9''\<rparr>"
    by (cases reqBody) (simp add: start_def example_client_def NewChatfireClient_def)
  with sent show \<open>wire (snd (GenerateVideo ?env [] ''a cat'' [] start))
     = [\<lparr>Method = ''POST'', URL = ''https://api.example.com/video/generations'',
         Header = [(''Content-Type'', ''application/json''), (''Authorization'', ''Bearer sk-test'')],
         Body = Some ''{"model":"video-1","prompt":"a cat","duration":5,"size":"16:9"}''\<rparr>]\<close>
    by (simp add: video_fixture_def start_def example_client_def NewChatfireClient_def
          example_marshal_ChatfireRequest_def fmt_d_5)
qed

section \<open>The text client\<close>








lemma GenerateVideo_world:
  "GenerateVideo env imageURL prompt opts w = (res, w') \<Longrightarrow> self w' = self w"
  by (auto simp: GenerateVideo_def video_unfold
        split: sum.splits option.splits prod.splits if_splits)

lemma GetTaskStatus_world:
  "GetTaskStatus env taskID w = (res, w') \<Longrightarrow> self w' = self w"
  by (auto simp: GetTaskStatus_def video_unfold
        split: sum.splits option.splits prod.splits if_splits)

lemma sendChatRequest_world:
  "sendChatRequest env req w = (res, w') \<Longrightarrow> self w' = self w"
  by (auto simp: sendChatRequest_def video_unfold
        split: sum.splits option.splits prod.splits if_splits)

lemma GenerateVideo_self: "self (snd (GenerateVideo env imageURL prompt opts w)) = self w"
  by (rule GenerateVideo_world [OF prod.collapse [symmetric]])

lemma GetTaskStatus_self: "self (snd (GetTaskStatus env taskID w)) = self w"
  by (rule GetTaskStatus_world [OF prod.collapse [symmetric]])

lemma sendChatRequest_self: "self (snd (sendChatRequest env req w)) = self w"
  by (rule sendChatRequest_world [OF prod.collapse [symmetric]])

lemma ChatCompletion_self: "self (snd (ChatCompletion env messages options w)) = self w"
  by (simp add: ChatCompletion_def sendChatRequest_self)

lemma GenerateText_self: "self (snd (GenerateText env prompt systemPrompt options w)) = self w"
proof -
  let ?messages = "(if systemPrompt \<noteq> []
                    then [] @ [\<lparr>ChatMessage.Role = ''system'', ChatMessage.Content = systemPrompt\<rparr>]
                    else []) @ [\<lparr>ChatMessage.Role = ''user'', ChatMessage.Content = prompt\<rparr>]"
  obtain r w' where cc: "ChatCompletion env ?messages options w = (r, w')"
    by (cases "ChatCompletion env ?messages options w") auto
  with ChatCompletion_self [of env ?messages options w] have "self w' = self w"
    by simp
  then show ?thesis
    unfolding GenerateText_def Let_def cc
    by (simp split: sum.splits list.splits)
qed

lemma TestConnection_self: "self (snd (TestConnection env w)) = self w"
proof -
  let ?messages = "[\<lparr>ChatMessage.Role = ''user'', ChatMessage.Content = ''Hello''\<rparr>]"
  obtain r w' where cc: "ChatCompletion env ?messages [WithMaxTokens 10] w = (r, w')"
    by (cases "ChatCompletion env ?messages [WithMaxTokens 10] w") auto
  with ChatCompletion_self [of env ?messages "[WithMaxTokens 10]" w] have "self w' = self w"
    by simp
  then show ?thesis
    unfolding TestConnection_def Let_def cc
    by (simp split: sum.splits)
qed

text \<open>
  Claim C9. The receiver object is the same after every operation of either client as
  before it, in every field: on every path, with or without an error.
\<close>

theorem client_configuration_unchanged:
  "self (snd (GenerateVideo env imageURL prompt opts w)) = self w
   \<and> self (snd (GetTaskStatus env taskID w)) = self w
   \<and> self (snd (sendChatRequest aenv req v)) = self v
   \<and> self (snd (ChatCompletion aenv messages options v)) = self v
   \<and> self (snd (GenerateText aenv userPrompt systemPrompt options v)) = self v
   \<and> self (snd (TestConnection aenv v)) = self v"
  by (simp add: GenerateVideo_self GetTaskStatus_self sendChatRequest_self ChatCompletion_self
        GenerateText_self TestConnection_self)

theorem client_configuration_unchanged_witness:
  "self polled_twice = NewChatfireClient ''https://api.example.com'' ''sk-test'' ''video-1'' [] []
   \<and> self (snd (GenerateText (ai_fixture answering_provider) ''Hello'' [] [WithMaxTokens 10] ai_start))
       = NewOpenAIClient ''https://llm.example.com'' ''sk-test'' ''gpt'' []"
  using client_configuration_unchanged [where env = "video_fixture scenario_provider"
      and taskID = "''t1''" and w = polled_once and aenv = "ai_fixture answering_provider"
      and userPrompt = "''Hello''" and systemPrompt = "[]" and options = "[WithMaxTokens 10]" and v = ai_start]
    client_configuration_unchanged [where env = "video_fixture scenario_provider"
      and taskID = "''t1''" and w = submitted]
    client_configuration_unchanged [where env = "video_fixture scenario_provider"
      and imageURL = "''https://img/1.png''" and prompt = "''a cat''" and opts = "[]" and w = start]
  by (simp add: polled_twice_def polled_once_def submitted_def start_def ai_start_def
        example_client_def example_ai_client_def)

section \<open>The decoder\<close>

lemma TrimSpace_framed:
  assumes "\<not> is_space x" "\<not> is_space y"
  shows "TrimSpace (p @ x # m @ y # q)
           = dropWhile is_space p @ x # m @ y # rev (dropWhile is_space (rev q))"
proof -
  have "dropWhile is_space (p @ x # m @ y # q) = dropWhile is_space p @ x # m @ y # q"
    using assms(1) by (simp add: dropWhile_append3)
  moreover have "dropWhile is_space (rev q @ y # rev m @ x # rev (dropWhile is_space p))
                   = dropWhile is_space (rev q) @ y # rev m @ x # rev (dropWhile is_space p)"
    using assms(2) by (simp add: dropWhile_append3)
  ultimately show ?thesis
    by (simp add: TrimSpace_def)
qed

lemma HasPrefix_short:
  assumes "HasPrefix (p @ x # r) f" and "x \<notin> set f"
  shows "length f \<le> length p"
proof (rule ccontr)
  assume "\<not> length f \<le> length p"
  then have lt: "length p < length f" by simp
  from assms(1) obtain b where eq: "p @ x # r = f @ b"
    by (auto simp: HasPrefix_iff)
  have "(p @ x # r) ! length p = x" by simp
  moreover have "(f @ b) ! length p = f ! length p"
    using lt by (simp add: nth_append)
  ultimately have "f ! length p = x" using eq by simp
  with lt have "x \<in> set f" using nth_mem by blast
  with assms(2) show False by simp
qed

lemma strip_leading_framed:
  assumes "x \<notin> set (fence @ ''json'')"
  shows "\<exists>p'. strip_leading_fence (p @ x # r) = p' @ x # r \<and> set p' \<subseteq> set p"
proof -
  have a: "HasPrefix (p @ x # r) (fence @ ''json'') \<Longrightarrow>
           drop (length (fence @ ''json'')) (p @ x # r) = drop (length (fence @ ''json'')) p @ x # r"
    using HasPrefix_short [OF _ assms] by simp
  have xf: "x \<notin> set fence" using assms by simp
  have b: "HasPrefix (p @ x # r) fence \<Longrightarrow>
           drop (length fence) (p @ x # r) = drop (length fence) p @ x # r"
    using HasPrefix_short [OF _ xf] by simp
  have s: "\<And>n. set (drop n p) \<subseteq> set p" by (rule set_drop_subset)
  show ?thesis
  proof (cases "HasPrefix (p @ x # r) (fence @ ''json'')")
    case True
    with a s show ?thesis
      unfolding strip_leading_fence_def by (intro exI [where x = "drop (length (fence @ ''json'')) p"]) simp
  next
    case False
    show ?thesis
    proof (cases "HasPrefix (p @ x # r) fence")
      case True
      with False b s show ?thesis
        unfolding strip_leading_fence_def by (intro exI [where x = "drop (length fence) p"]) simp
    next
      case nf: False
      with False show ?thesis
        unfolding strip_leading_fence_def by (intro exI [where x = p]) simp
    qed
  qed
qed

lemma strip_trailing_framed:
  assumes "y \<notin> set fence"
  shows "\<exists>q'. strip_trailing_fence (r @ y # q) = r @ y # q' \<and> set q' \<subseteq> set q"
proof (cases "HasSuffix (r @ y # q) fence")
  case True
  then have "HasPrefix (rev q @ y # rev r) (rev fence)"
    by (simp add: HasSuffix_def)
  then have "length (rev fence) \<le> length (rev q)"
    using assms by (intro HasPrefix_short [where x = y and r = "rev r"]) auto
  then have le: "length fence \<le> length q" by simp
  then have "take (length (r @ y # q) - length fence) (r @ y # q)
               = r @ y # take (length q - length fence) q"
    by (simp add: Suc_diff_le)
  moreover have "set (take (length q - length fence) q) \<subseteq> set q"
    by (rule set_take_subset)
  ultimately show ?thesis
    using True unfolding strip_trailing_fence_def by auto
next
  case False
  then show ?thesis
    unfolding strip_trailing_fence_def by auto
qed

lemma strip_fence_framed:
  assumes "\<not> is_space x" "\<not> is_space y" "x \<notin> set (fence @ ''json'')" "y \<notin> set fence"
  shows "\<exists>p' q'. strip_fence (p @ x # m @ y # q) = p' @ x # m @ y # q'
           \<and> set p' \<subseteq> set p \<and> set q' \<subseteq> set q"
proof -
  let ?p1 = "dropWhile is_space p" and ?q1 = "rev (dropWhile is_space (rev q))"
  have t1: "TrimSpace (p @ x # m @ y # q) = ?p1 @ x # m @ y # ?q1"
    using assms(1,2) by (rule TrimSpace_framed)
  have sp1: "set ?p1 \<subseteq> set p" by (auto dest: set_dropWhileD)
  have "set (dropWhile is_space (rev q)) \<subseteq> set (rev q)" by (auto dest: set_dropWhileD)
  then have sq1: "set ?q1 \<subseteq> set q" by simp
  obtain p2 where t2: "strip_leading_fence (?p1 @ x # m @ y # ?q1) = p2 @ x # m @ y # ?q1"
    and sp2: "set p2 \<subseteq> set ?p1"
    using strip_leading_framed [OF assms(3)] by blast
  obtain q3 where t3: "strip_trailing_fence ((p2 @ x # m) @ y # ?q1) = (p2 @ x # m) @ y # q3"
    and sq3: "set q3 \<subseteq> set ?q1"
    using strip_trailing_framed [OF assms(4)] by blast
  let ?p4 = "dropWhile is_space p2" and ?q4 = "rev (dropWhile is_space (rev q3))"
  have t4: "TrimSpace (p2 @ x # m @ y # q3) = ?p4 @ x # m @ y # ?q4"
    using assms(1,2) by (rule TrimSpace_framed)
  have sp4: "set ?p4 \<subseteq> set p2" by (auto dest: set_dropWhileD)
  have "set (dropWhile is_space (rev q3)) \<subseteq> set (rev q3)" by (auto dest: set_dropWhileD)
  then have sq4: "set ?q4 \<subseteq> set q3" by simp
  have "strip_fence (p @ x # m @ y # q) = ?p4 @ x # m @ y # ?q4"
    using t1 t2 t3 t4 by (simp add: strip_fence_def)
  moreover have "set ?p4 \<subseteq> set p" using sp4 sp2 sp1 by blast
  moreover have "set ?q4 \<subseteq> set q" using sq4 sq3 sq1 by blast
  ultimately show ?thesis by blast
qed

lemma between_framed:
  assumes "x \<notin> set p" "y \<notin> set q"
  shows "between x y (p @ x # m @ y # q) = Some (x # m @ [y])"
proof -
  have "dropWhile (\<lambda>c. c \<noteq> x) (p @ x # m @ y # q) = x # m @ y # q"
    using assms(1) by (auto simp: dropWhile_append)
  moreover have "dropWhile (\<lambda>c. c \<noteq> y) (rev q @ y # rev m @ [x]) = y # rev m @ [x]"
    using assms(2) by (auto simp: dropWhile_append)
  ultimately show ?thesis
    by (simp add: between_def)
qed

text \<open>
  Claim C7, amended. Let the text hold a JSON object or array that parses to \<open>v\<close>, with
  anything before it that does not contain its opening token and anything after it that
  does not contain its closing token: white space, a code fence with or without the
  \<^verbatim>\<open>json\<close> tag, prose. Provided the stripped text as a whole does not parse to another
  value (and, for an array, the substring between the braces, if there is one, does not
  parse), \<open>decode\<close> returns \<open>v\<close>.
\<close>

theorem decode_recovers_embedded_json:
  assumes "parse (x # m @ [y]) = Some v"
    and "(x = CHR ''{'' \<and> y = CHR ''}'')
         \<or> (x = CHR ''['' \<and> y = CHR '']''
            \<and> (\<forall>s. between CHR ''{'' CHR ''}'' (strip_fence (pre @ x # m @ y # post)) = Some s
                   \<longrightarrow> parse s = None))"
    and "x \<notin> set pre" and "y \<notin> set post"
    and "parse (strip_fence (pre @ x # m @ y # post)) = None
         \<or> parse (strip_fence (pre @ x # m @ y # post)) = Some v"
  shows "decode parse limit (pre @ x # m @ y # post) = Inr v"
proof -
  let ?t = "strip_fence (pre @ x # m @ y # post)"
  from assms(2) have tok: "\<not> is_space x" "\<not> is_space y" "x \<notin> set (fence @ ''json'')" "y \<notin> set fence"
    by (auto simp: is_space_def fence_def)
  from strip_fence_framed [OF tok] obtain p' q' where
    t: "?t = p' @ x # m @ y # q'" and "set p' \<subseteq> set pre" and "set q' \<subseteq> set post"
    by blast
  with assms(3,4) have "x \<notin> set p'" "y \<notin> set q'" by auto
  then have b: "between x y ?t = Some (x # m @ [y])"
    unfolding t by (rule between_framed)
  show ?thesis
  proof (cases "parse ?t")
    case (Some u)
    with assms(5) have "parse ?t = Some v" by simp
    then show ?thesis by (simp add: decode_def)
  next
    case None
    from assms(2) have "first_parse parse (candidates ?t) = Some v"
    proof
      assume "x = CHR ''{'' \<and> y = CHR ''}''"
      with b assms(1) show ?thesis
        by (simp add: candidates_def)
    next
      assume a: "x = CHR ''['' \<and> y = CHR '']''
            \<and> (\<forall>s. between CHR ''{'' CHR ''}'' ?t = Some s \<longrightarrow> parse s = None)"
      with b have arr: "between CHR ''['' CHR '']'' ?t = Some (x # m @ [y])" by simp
      show ?thesis
      proof (cases "between CHR ''{'' CHR ''}'' ?t")
        case None
        with arr assms(1) show ?thesis by (simp add: candidates_def)
      next
        case (Some s)
        with a have "parse s = None" by blast
        with Some arr assms(1) show ?thesis by (simp add: candidates_def)
      qed
    qed
    with None show ?thesis by (simp add: decode_def)
  qed
qed

lemmas decode_eval = decode_def strip_fence_def TrimSpace_def strip_leading_fence_def
  strip_trailing_fence_def HasSuffix_def fence_def is_space_def candidates_def
  between_def repaired_def example_parse_def

theorem decode_recovers_embedded_json_witness:
  \<open>decode example_parse 200
      (''Here you go: '' @ fence @ ''json'' @ [CHR 0x0A] @ ''{"a":1}'' @ [CHR 0x0A] @ fence @ '' bye'')
     = Inr 1\<close>
  using decode_recovers_embedded_json [where parse = example_parse and limit = 200
      and pre = "''Here you go: '' @ fence @ ''json'' @ [CHR 0x0A]"
      and x = "CHR ''{''" and m = \<open>''"a":1''\<close> and y = "CHR ''}''"
      and post = "[CHR 0x0A] @ fence @ '' bye''" and v = 1]
  by (simp add: decode_eval)

text \<open>
  Claim C7 as stated fails: prose that has braces of its own moves the first \<^verbatim>\<open>{\<close> away
  from the JSON. The substring of step 3 is then \<^verbatim>\<open>{x}: {"a":1}\<close>, which does not parse
  and is balanced, so that no repair applies and the error is returned.
\<close>

theorem decode_prose_counterexample:
  \<open>example_parse ''{"a":1}'' = Some 1
   \<and> decode example_parse 200 ''see {x}: {"a":1}'' = Inl (DecodeError ''see {x}: {"a":1}'')\<close>
  by (simp add: decode_eval)

end
